theory Spec2Isabelle
  imports Complex_Main
begin

section \<open>Errors\<close>

text \<open>
  The Python exceptions that the modelled code can raise. A function that can raise
  returns \<open>error + 'a\<close>, with \<open>Inl\<close> for the exception.
\<close>

datatype error =
    InvalidDate
  | ValueError
  | OverflowError
  | TypeError
  | AttributeError
  | AssertionError
  | IndexError
  | MergeError

section \<open>Rounding and rate conversions\<close>

text \<open>
  Rates and balances are floats in the source. They are modelled by the real numbers
  they stand for, so \<open>round\<close> is exact rounding to the nearest multiple of
  \<open>10 ^ -n\<close>, ties going to the even neighbour (the rule of Python's \<open>round\<close>
  and of \<open>Series.round\<close>).
\<close>

definition round_half_even :: "real \<Rightarrow> int" where
  "round_half_even x =
     (let f = \<lfloor>x\<rfloor>; d = x - of_int f
      in if d < 1/2 then f else if 1/2 < d then f + 1 else if even f then f else f + 1)"

definition round_dec :: "nat \<Rightarrow> real \<Rightarrow> real" where
  "round_dec n x = of_int (round_half_even (x * 10 ^ n)) / 10 ^ n"

text \<open>
  \<open>procesamiento_tc.py\<close>, line 494: the lambda of the fallback path of
  \<open>tasas_originales\<close>, \<open>round((((((x/100)+1)**12)-1)*100),2)\<close>.
\<close>

definition interes_ea :: "real \<Rightarrow> real" where
  "interes_ea x = round_dec 2 ((((x / 100) + 1) ^ 12 - 1) * 100)"

text \<open>
  Lines 1346-1347 of \<open>afectacion_ingresos_conTasaMv\<close>: the original rate is divided
  by 100, then \<open>round((((1+x)**(30/360))-1)*100,2)\<close> is applied to each value.
  A negative float raised to a fractional power is a complex number in Python, which
  \<open>round\<close> rejects with a TypeError.
\<close>

definition tasa_original_mv :: "real \<Rightarrow> error + real" where
  "tasa_original_mv tasa_ea_original =
     (let x = tasa_ea_original / 100
      in if 1 + x < 0 then Inl TypeError
         else Inr (round_dec 2 (((1 + x) powr (30/360) - 1) * 100)))"

section \<open>Reference dates (utils.py)\<close>

record date =
  year :: int
  month :: int
  day :: int

definition isleap :: "int \<Rightarrow> bool" where
  "isleap y = (y mod 4 = 0 \<and> (y mod 100 \<noteq> 0 \<or> y mod 400 = 0))"

text \<open>Number of days of a month, \<open>calendar.monthrange(year, month)[1]\<close>.\<close>

definition monthrange :: "int \<Rightarrow> int \<Rightarrow> int" where
  "monthrange y m =
     (if m = 2 then (if isleap y then 29 else 28)
      else if m = 4 \<or> m = 6 \<or> m = 9 \<or> m = 11 then 30 else 31)"

text \<open>
  \<open>ReferenceDate.__init__\<close>: without an argument the reference date is today (at
  midnight), otherwise the string \<open>'%Y-%m'\<close> is parsed with day 1. The string is
  modelled by the year and month it denotes; \<open>strptime\<close> raises ValueError outside
  the years 1 to 9999 and the months 1 to 12.
\<close>

definition ReferenceDate :: "date \<Rightarrow> (int \<times> int) option \<Rightarrow> error + date" where
  "ReferenceDate today ref_date =
     (case ref_date of
        None \<Rightarrow> Inr today
      | Some (y, m) \<Rightarrow>
          if 1 \<le> y \<and> y \<le> 9999 \<and> 1 \<le> m \<and> m \<le> 12
          then Inr \<lparr>year = y, month = m, day = 1\<rparr>
          else Inl ValueError)"

text \<open>
  \<open>dt + relativedelta(months=k)\<close> for \<open>-12 < k < 12\<close>: the month moves by
  \<open>k\<close>, the year follows, and the day is cut to the length of the new month.
  \<open>datetime.replace\<close> raises ValueError when the year leaves 1 to 9999.
\<close>

definition add_relativedelta_months :: "int \<Rightarrow> date \<Rightarrow> error + date" where
  "add_relativedelta_months k dt =
     (let m = month dt + k;
          y' = (if m > 12 then year dt + 1 else if m < 1 then year dt - 1 else year dt);
          m' = (if m > 12 then m - 12 else if m < 1 then m + 12 else m);
          d' = min (monthrange y' m') (day dt)
      in if 1 \<le> y' \<and> y' \<le> 9999 then Inr \<lparr>year = y', month = m', day = d'\<rparr>
         else Inl ValueError)"

text \<open>
  \<open>dt - relativedelta(days=n)\<close>: \<open>n\<close> days back in the calendar, one day at a
  time. Going before 0001-01-01 raises OverflowError.
\<close>

fun sub_relativedelta_days :: "nat \<Rightarrow> date \<Rightarrow> error + date" where
  "sub_relativedelta_days 0 dt = Inr dt"
| "sub_relativedelta_days (Suc n) dt =
     (if day dt > 1 then sub_relativedelta_days n (dt\<lparr>day := day dt - 1\<rparr>)
      else if month dt > 1
        then sub_relativedelta_days n
               \<lparr>year = year dt, month = month dt - 1,
                day = monthrange (year dt) (month dt - 1)\<rparr>
      else if year dt > 1
        then sub_relativedelta_days n \<lparr>year = year dt - 1, month = 12, day = 31\<rparr>
      else Inl OverflowError)"

definition last_date :: "date \<Rightarrow> error + date" where
  "last_date ref_date =
     (case add_relativedelta_months 1 ref_date of
        Inl e \<Rightarrow> Inl e
      | Inr d \<Rightarrow> sub_relativedelta_days (nat (day ref_date)) d)"

definition first_date :: "date \<Rightarrow> error + date" where
  "first_date ref_date = sub_relativedelta_days (nat (day ref_date - 1)) ref_date"

definition prev_last_date :: "date \<Rightarrow> error + date" where
  "prev_last_date ref_date = sub_relativedelta_days (nat (day ref_date)) ref_date"

definition prev_first_date :: "date \<Rightarrow> error + date" where
  "prev_first_date ref_date =
     (case sub_relativedelta_days (nat (day ref_date - 1)) ref_date of
        Inl e \<Rightarrow> Inl e
      | Inr d \<Rightarrow> add_relativedelta_months (- 1) d)"

text \<open>
  The month before month \<open>m\<close> of year \<open>y\<close>, used to state what the
  \<open>prev_\<close> modes should return.
\<close>

definition prev_year :: "int \<Rightarrow> int \<Rightarrow> int" where
  "prev_year y m = (if m > 1 then y else y - 1)"

definition prev_month :: "int \<Rightarrow> int" where
  "prev_month m = (if m > 1 then m - 1 else 12)"

text \<open>
  \<open>ReferenceDate.get_format_date\<close>. The formatting function \<open>strftime\<close> is a
  parameter: the claims are about which date is formatted, not about the format.
\<close>

definition get_format_date ::
  "(date \<Rightarrow> string \<Rightarrow> string) \<Rightarrow> date \<Rightarrow> string \<Rightarrow> string \<Rightarrow> error + string" where
  "get_format_date strftime ref_date int_date format =
     (if int_date = ''first_date''
        then map_sum id (\<lambda>d. strftime d format) (first_date ref_date)
      else if int_date = ''last_date''
        then map_sum id (\<lambda>d. strftime d format) (last_date ref_date)
      else if int_date = ''prev_first_date''
        then map_sum id (\<lambda>d. strftime d format) (prev_first_date ref_date)
      else if int_date = ''prev_last_date''
        then map_sum id (\<lambda>d. strftime d format) (prev_last_date ref_date)
      else Inl InvalidDate)"

section \<open>Balance composition: the column check\<close>

text \<open>
  Of \<open>balance_composition\<close> only the column names decide whether the step goes
  through. Line 131 builds the frame with these columns.
\<close>

definition df_composicion_saldo_columns :: "string list" where
  "df_composicion_saldo_columns =
     [''periodo'', ''saldo_total'', ''saldo_capital'', ''saldo_intereses'',
      ''saldo_mora'', ''saldo_otros'']"

text \<open>Attribute access \<open>frame.name\<close>: a column of that name, or AttributeError.\<close>

definition getattr_column :: "string list \<Rightarrow> string \<Rightarrow> error + string" where
  "getattr_column columns name = (if name \<in> set columns then Inr name else Inl AttributeError)"

text \<open>\<open>frame.set_index('periodo')\<close> removes the column from \<open>frame.columns\<close>.\<close>

definition set_index :: "string \<Rightarrow> string list \<Rightarrow> string list" where
  "set_index name columns = filter (\<lambda>c. c \<noteq> name) columns"

text \<open>
  Lines 147-150:
  \<^verbatim>\<open>assert not all([a.columns[i]==b.columns[i] for i in range(len(a.columns))])\<close>.
  Reading \<open>b.columns[i]\<close> beyond the end raises IndexError.
\<close>

definition assert_columns :: "string list \<Rightarrow> string list \<Rightarrow> error + unit" where
  "assert_columns a b =
     (if length b < length a then Inl IndexError
      else if \<not> list_all (\<lambda>i. a ! i = b ! i) [0..<length a] then Inr ()
      else Inl AssertionError)"

text \<open>
  The path of \<open>balance_composition\<close> from line 136 to the assertion; \<open>df_columns\<close>
  are the columns of the historical frame returned by \<open>query_comp_balance\<close>.
\<close>

definition balance_composition :: "string list \<Rightarrow> error + unit" where
  "balance_composition df_columns =
     (case getattr_column df_composicion_saldo_columns ''Periodo'' of
        Inl e \<Rightarrow> Inl e
      | Inr _ \<Rightarrow>
          assert_columns (set_index ''periodo'' df_composicion_saldo_columns)
            (set_index ''periodo'' df_columns))"

section \<open>Rate reconciliation (tasas_originales)\<close>

text \<open>
  A row of the month's transaction table \<open>SieT..[mes_base]\<close>, written by
  \<open>procesar\<close>. The table stores text; the numeric columns are modelled by the
  numbers that \<open>astype('float')\<close> reads from them.
\<close>

record txn =
  llave :: string
  nro_producto :: string
  fecha_transaccion :: string
  tipo_transaccion :: string
  cod_transaccion :: string
  tasa_interes :: real
  valor_transaccion :: real
  nro_cargos_diferidos :: real
  saldo_actual_trasaccion :: real
  tipo_producto :: string
  periodo :: string

text \<open>
  A row of \<open>Maestro_Saldos..Maestro_Facturacion\<close>, alias \<open>p2\<close> in the query.
  \<open>FECHA\<close> is a date (year, month, day); \<open>TASA_EA\<close> may be NULL.
\<close>

record maestro =
  p2_FECHA :: "int \<times> int \<times> int"
  p2_NEGOCIO :: string
  p2_VALOR_TRANSACCION :: real
  p2_CUOTAS_DIFERIDAS :: real
  p2_CODIGO_TRANSACCION :: string
  p2_CODIGO_PRODUCTO :: string
  p2_FECHA_TRANSACCION :: string
  p2_TASA_EA :: "real option"
  p2_IDENTIFICACION :: string

text \<open>
  The rows that \<open>tasas_originales\<close> returns: the transaction columns and
  \<open>TASA_EA\<close> (\<open>None\<close> is NaN). The frames inside the function also carry
  \<open>FECHA\<close>; the columns \<open>NEGOCIO\<close> and \<open>IDENTIFICACION\<close> of the query are
  never read and are left out.
\<close>

record df_to = txn +
  TASA_EA :: "real option"

record cruce_mes = df_to +
  FECHA :: "(int \<times> int \<times> int) option"

definition fila :: "txn \<Rightarrow> real option \<Rightarrow> (int \<times> int \<times> int) option \<Rightarrow> cruce_mes" where
  "fila t tasa fecha =
     \<lparr>llave = llave t, nro_producto = nro_producto t,
      fecha_transaccion = fecha_transaccion t, tipo_transaccion = tipo_transaccion t,
      cod_transaccion = cod_transaccion t, tasa_interes = tasa_interes t,
      valor_transaccion = valor_transaccion t,
      nro_cargos_diferidos = nro_cargos_diferidos t,
      saldo_actual_trasaccion = saldo_actual_trasaccion t,
      tipo_producto = tipo_producto t, periodo = periodo t,
      TASA_EA = tasa, FECHA = fecha\<rparr>"

text \<open>Lines 498-500: the twelve columns that are kept.\<close>

definition columnas :: "cruce_mes \<Rightarrow> df_to" where
  "columnas r =
     \<lparr>llave = llave r, nro_producto = nro_producto r,
      fecha_transaccion = fecha_transaccion r, tipo_transaccion = tipo_transaccion r,
      cod_transaccion = cod_transaccion r, tasa_interes = tasa_interes r,
      valor_transaccion = valor_transaccion r,
      nro_cargos_diferidos = nro_cargos_diferidos r,
      saldo_actual_trasaccion = saldo_actual_trasaccion r,
      tipo_producto = tipo_producto r, periodo = periodo r,
      TASA_EA = TASA_EA r\<rparr>"

text \<open>
  The backward scan of lines 399-435. The inner \<open>for\<close> runs \<open>num_mes\<close> times; each
  pass queries the month \<open>(numero_anio, numero_mes)\<close> and steps one month back.
\<close>

fun scan_for :: "nat \<Rightarrow> int \<times> int \<Rightarrow> (int \<times> int) list \<times> (int \<times> int)" where
  "scan_for 0 st = ([], st)"
| "scan_for (Suc i) (numero_anio, numero_mes) =
     (case scan_for i (if numero_mes - 1 = 0 then (numero_anio - 1, 12)
                       else (numero_anio, numero_mes - 1)) of
        (meses, st) \<Rightarrow> ((numero_anio, numero_mes) # meses, st))"

text \<open>
  The outer \<open>while numero_mes >= 1 and numero_anio >= anio_final\<close>. It need not
  stop for every state, so it returns an option, \<open>None\<close> for a run that loops.
\<close>

partial_function (option) scan_while ::
  "int \<Rightarrow> int \<Rightarrow> int \<times> int \<Rightarrow> (int \<times> int) list \<Rightarrow> (int \<times> int) list option" where
  "scan_while num_mes anio_final st acc =
     (if snd st \<ge> 1 \<and> fst st \<ge> anio_final
      then scan_while num_mes anio_final (snd (scan_for (nat num_mes) st))
             (acc @ fst (scan_for (nat num_mes) st))
      else Some acc)"

declare scan_while.simps [code]

text \<open>The \<open>ON\<close> clause of the inner join.\<close>

definition on_clause :: "txn \<Rightarrow> maestro \<Rightarrow> bool" where
  "on_clause p1 p2 \<longleftrightarrow>
     nro_producto p1 = p2_NEGOCIO p2
     \<and> valor_transaccion p1 = p2_VALOR_TRANSACCION p2
     \<and> nro_cargos_diferidos p1 = p2_CUOTAS_DIFERIDAS p2
     \<and> p2_CODIGO_TRANSACCION p2 = cod_transaccion p1
     \<and> p2_CODIGO_PRODUCTO p2 = tipo_producto p1
     \<and> fecha_transaccion p1 = p2_FECHA_TRANSACCION p2"

text \<open>
  The query \<open>sql_1\<close> for one month: the inner join, filtered by
  \<open>p2.FECHA = 'anio-mes-01'\<close>, with
  \<open>CASE CAST(p1.nro_cargos_diferidos AS FLOAT) WHEN 1 THEN 0 ELSE p2.TASA_EA END\<close>.
\<close>

definition sql_1 :: "txn list \<Rightarrow> maestro list \<Rightarrow> int \<times> int \<Rightarrow> cruce_mes list" where
  "sql_1 p1s p2s am =
     concat (map (\<lambda>p1.
       map (\<lambda>p2. fila p1 (if nro_cargos_diferidos p1 = 1 then Some 0 else p2_TASA_EA p2)
                    (Some (p2_FECHA p2)))
         (filter (\<lambda>p2. on_clause p1 p2 \<and> p2_FECHA p2 = (fst am, snd am, 1)) p2s)) p1s)"

text \<open>\<open>drop_duplicates(subset=['llave'])\<close>: the first row of each key is kept.\<close>

fun drop_duplicates_from :: "string list \<Rightarrow> cruce_mes list \<Rightarrow> cruce_mes list" where
  "drop_duplicates_from seen [] = []"
| "drop_duplicates_from seen (r # rs) =
     (if llave r \<in> set seen then drop_duplicates_from seen rs
      else r # drop_duplicates_from (llave r # seen) rs)"

definition drop_duplicates :: "cruce_mes list \<Rightarrow> cruce_mes list" where
  "drop_duplicates rs = drop_duplicates_from [] rs"

text \<open>
  \<open>pd.merge(left, right, how='left', on='llave', validate='1:1')\<close>: MergeError when
  a key repeats on either side; otherwise one row per left row, with the columns of the
  right row of the same key, or NaN when there is none.
\<close>

definition merge_left :: "txn list \<Rightarrow> cruce_mes list \<Rightarrow> error + cruce_mes list" where
  "merge_left left right =
     (if \<not> distinct (map llave left) \<or> \<not> distinct (map llave right) then Inl MergeError
      else Inr (map (\<lambda>t. case find (\<lambda>r. llave r = llave t) right of
                             None \<Rightarrow> fila t None None
                           | Some r \<Rightarrow> fila t (TASA_EA r) (FECHA r)) left))"

text \<open>
  Line 443 casts the column \<open>tipo_transaccion\<close> of the joined rows with
  \<open>astype('float')\<close>, which raises ValueError on a text that is not a number.
  \<open>procesar\<close> keeps the transaction types 1, 2, \<open>'C'\<close> and \<open>'V'\<close>, so the
  column holds decimal numerals or one of the two letters; \<open>float_text\<close> recognises
  the decimal numerals (an optional sign, digits, an optional point, with a digit
  somewhere).
\<close>

definition digit :: "char \<Rightarrow> bool" where
  "digit c = (c \<in> set ''0123456789'')"

definition float_text :: "string \<Rightarrow> bool" where
  "float_text s =
     (let u = (case s of
                 [] \<Rightarrow> s
               | c # cs \<Rightarrow> if c = CHR ''-'' \<or> c = CHR ''+'' then cs else s);
          a = takeWhile digit u;
          b = dropWhile digit u
      in case b of
           [] \<Rightarrow> a \<noteq> []
         | c # cs \<Rightarrow> c = CHR ''.'' \<and> list_all digit cs \<and> (a \<noteq> [] \<or> cs \<noteq> []))"

text \<open>
  \<open>tasas_originales\<close>. \<open>mes_base\<close> stands for the rows of the table of that name
  and \<open>maestro_facturacion\<close> for the rows of the master table. \<open>pd.concat\<close> of an
  empty list of frames raises ValueError, and so does the cast of line 443 when a joined
  row has a transaction type that is not a number.
\<close>

definition tasas_originales ::
  "txn list \<Rightarrow> maestro list \<Rightarrow> int \<Rightarrow> int \<Rightarrow> (error + df_to list) option" where
  "tasas_originales mes_base maestro_facturacion num_mes num_anio =
     (case scan_while num_mes (num_anio - 10) (num_anio, num_mes) [] of
        None \<Rightarrow> None
      | Some meses \<Rightarrow> Some
          (if meses = [] then Inl ValueError
           else
             let df_complete = concat (map (sql_1 mes_base maestro_facturacion) meses);
                 df_mes_to_sinDuplicados = drop_duplicates df_complete
             in if \<not> list_all (\<lambda>r. float_text (tipo_transaccion r)) df_complete
                then Inl ValueError
                else case merge_left mes_base df_mes_to_sinDuplicados of
                  Inl e \<Rightarrow> Inl e
                | Inr cruce_mes_left \<Rightarrow>
                    let missing = filter (\<lambda>r. TASA_EA r = None) cruce_mes_left;
                        complete = filter (\<lambda>r. FECHA r \<noteq> None) cruce_mes_left;
                        missing = map (\<lambda>r. r\<lparr>TASA_EA := Some (interes_ea (tasa_interes r))\<rparr>)
                                    missing;
                        cruce_mes_left = map columnas (complete @ missing)
                    in Inr (map (\<lambda>r. r\<lparr>TASA_EA := map_option (round_dec 1) (TASA_EA r)\<rparr>)
                              cruce_mes_left)))"

text \<open>
  Notions used to state the properties of \<open>tasas_originales\<close>: a returned row built
  from a transaction and an original rate; the row of the fallback path, whose original
  rate is the effective-annual rate of the nominal rate, rounded to two and then to one
  decimal; "the reference master yields no row in the whole lookback window", that is,
  every query of the scan comes back empty; the months that the scan visits; "the master
  row \<open>p2\<close> matches the transaction \<open>t\<close> in the window", that is, it satisfies the
  \<open>ON\<close> clause and is dated the first of a visited month; and the rate that the
  \<open>CASE\<close> of the query gives to such a pair.
\<close>

definition fila_df_to :: "txn \<Rightarrow> real option \<Rightarrow> df_to" where
  "fila_df_to t tasa =
     \<lparr>llave = llave t, nro_producto = nro_producto t,
      fecha_transaccion = fecha_transaccion t, tipo_transaccion = tipo_transaccion t,
      cod_transaccion = cod_transaccion t, tasa_interes = tasa_interes t,
      valor_transaccion = valor_transaccion t,
      nro_cargos_diferidos = nro_cargos_diferidos t,
      saldo_actual_trasaccion = saldo_actual_trasaccion t,
      tipo_producto = tipo_producto t, periodo = periodo t,
      TASA_EA = tasa\<rparr>"

definition fallback :: "txn \<Rightarrow> df_to" where
  "fallback t = fila_df_to t (Some (round_dec 1 (interes_ea (tasa_interes t))))"

definition reference_empty_in_window :: "txn list \<Rightarrow> maestro list \<Rightarrow> int \<Rightarrow> int \<Rightarrow> bool" where
  "reference_empty_in_window mes_base maestro_facturacion num_mes num_anio =
     (case scan_while num_mes (num_anio - 10) (num_anio, num_mes) [] of
        None \<Rightarrow> False
      | Some meses \<Rightarrow> list_all (\<lambda>am. sql_1 mes_base maestro_facturacion am = []) meses)"

definition lookback :: "int \<Rightarrow> int \<Rightarrow> (int \<times> int) list" where
  "lookback num_mes num_anio =
     (case scan_while num_mes (num_anio - 10) (num_anio, num_mes) [] of
        None \<Rightarrow> []
      | Some meses \<Rightarrow> meses)"

definition in_window :: "txn \<Rightarrow> maestro \<Rightarrow> int \<Rightarrow> int \<Rightarrow> bool" where
  "in_window t p2 num_mes num_anio \<longleftrightarrow>
     on_clause t p2
     \<and> list_ex (\<lambda>am. p2_FECHA p2 = (fst am, snd am, 1)) (lookback num_mes num_anio)"

definition case_tasa_ea :: "txn \<Rightarrow> maestro \<Rightarrow> real option" where
  "case_tasa_ea t p2 = (if nro_cargos_diferidos t = 1 then Some 0 else p2_TASA_EA p2)"

text \<open>Sample rows for the worked examples.\<close>

definition txn_cuotas :: txn where
  "txn_cuotas =
     \<lparr>llave = ''0'', nro_producto = ''P1'', fecha_transaccion = ''2023-01-05'',
      tipo_transaccion = ''1'', cod_transaccion = ''10'', tasa_interes = 2,
      valor_transaccion = 100, nro_cargos_diferidos = 12,
      saldo_actual_trasaccion = 1000, tipo_producto = ''TC'', periodo = ''2023-03-31''\<rparr>"

definition txn_totalero :: txn where
  "txn_totalero =
     \<lparr>llave = ''1'', nro_producto = ''P2'', fecha_transaccion = ''2023-02-10'',
      tipo_transaccion = ''1'', cod_transaccion = ''10'', tasa_interes = 2,
      valor_transaccion = 50, nro_cargos_diferidos = 1,
      saldo_actual_trasaccion = 500, tipo_producto = ''TC'', periodo = ''2023-03-31''\<rparr>"

definition maestro_cuotas :: "real option \<Rightarrow> maestro" where
  "maestro_cuotas tasa =
     \<lparr>p2_FECHA = (2023, 2, 1), p2_NEGOCIO = ''P1'', p2_VALOR_TRANSACCION = 100,
      p2_CUOTAS_DIFERIDAS = 12, p2_CODIGO_TRANSACCION = ''10'', p2_CODIGO_PRODUCTO = ''TC'',
      p2_FECHA_TRANSACCION = ''2023-01-05'', p2_TASA_EA = tasa,
      p2_IDENTIFICACION = ''ID1''\<rparr>"

definition maestro_totalero :: maestro where
  "maestro_totalero =
     \<lparr>p2_FECHA = (2023, 3, 1), p2_NEGOCIO = ''P2'', p2_VALOR_TRANSACCION = 50,
      p2_CUOTAS_DIFERIDAS = 1, p2_CODIGO_TRANSACCION = ''10'', p2_CODIGO_PRODUCTO = ''TC'',
      p2_FECHA_TRANSACCION = ''2023-02-10'', p2_TASA_EA = Some 25,
      p2_IDENTIFICACION = ''ID2''\<rparr>"

section \<open>The current effective-annual rate column\<close>

text \<open>
  A row of the working frame of the steps that follow the reconciliation: the balance, the
  original effective-annual rate (NaN is \<open>None\<close>) and the current effective-annual
  rate \<open>interes_ea\<close> that the step derives from the nominal rate.
\<close>

record df_mes =
  saldo_actual :: real
  tasa_ea_original :: "real option"
  interes_ea_actual :: real

text \<open>
  Each step builds its own frame and writes the conversion out again: lines 914
  (\<open>afectacion_100pbs\<close>), 1033 (\<open>afectacion_historica_estimada\<close>), 1170
  (\<open>estimacion_sensibilidad\<close>), 1439 (\<open>saldo_usura\<close>) and 777 (\<open>saldo_to_mes\<close>).
\<close>

definition afectacion_100pbs_df_mes :: "df_to list \<Rightarrow> df_mes list" where
  "afectacion_100pbs_df_mes df =
     map (\<lambda>r. \<lparr>saldo_actual = saldo_actual_trasaccion r, tasa_ea_original = TASA_EA r,
                interes_ea_actual = round_dec 2 ((((tasa_interes r / 100) + 1) ^ 12 - 1) * 100)\<rparr>)
       df"

definition afectacion_historica_estimada_df_mes :: "df_to list \<Rightarrow> df_mes list" where
  "afectacion_historica_estimada_df_mes df_mes =
     map (\<lambda>r. \<lparr>saldo_actual = saldo_actual_trasaccion r, tasa_ea_original = TASA_EA r,
                interes_ea_actual = round_dec 2 ((((tasa_interes r / 100) + 1) ^ 12 - 1) * 100)\<rparr>)
       df_mes"

definition estimacion_sensibilidad_df_mes :: "df_to list \<Rightarrow> df_mes list" where
  "estimacion_sensibilidad_df_mes df_mes =
     map (\<lambda>r. \<lparr>saldo_actual = saldo_actual_trasaccion r, tasa_ea_original = TASA_EA r,
                interes_ea_actual = round_dec 2 ((((tasa_interes r / 100) + 1) ^ 12 - 1) * 100)\<rparr>)
       df_mes"

definition saldo_usura_df_mes :: "df_to list \<Rightarrow> df_mes list" where
  "saldo_usura_df_mes df =
     map (\<lambda>r. \<lparr>saldo_actual = saldo_actual_trasaccion r, tasa_ea_original = TASA_EA r,
                interes_ea_actual = round_dec 2 ((((tasa_interes r / 100) + 1) ^ 12 - 1) * 100)\<rparr>)
       df"

definition saldo_to_mes_df_to :: "df_to list \<Rightarrow> df_mes list" where
  "saldo_to_mes_df_to df_mes_input =
     map (\<lambda>r. \<lparr>saldo_actual = saldo_actual_trasaccion r, tasa_ea_original = TASA_EA r,
                interes_ea_actual = round_dec 2 ((((tasa_interes r / 100) + 1) ^ 12 - 1) * 100)\<rparr>)
       df_mes_input"

text \<open>
  The same column in \<open>segmentacion_saldo\<close> (line 527) and in
  \<open>tasas_usura_implicita_facial\<close> (line 633, rounded once more at line 636).
\<close>

definition segmentacion_saldo_interes_ea :: "df_to list \<Rightarrow> real list" where
  "segmentacion_saldo_interes_ea df_mes_input =
     map (\<lambda>r. round_dec 2 ((((tasa_interes r / 100) + 1) ^ 12 - 1) * 100)) df_mes_input"

definition tasas_usura_implicita_facial_interes_ea :: "df_to list \<Rightarrow> real list" where
  "tasas_usura_implicita_facial_interes_ea df_mes =
     map (\<lambda>r. round_dec 2 (round_dec 2 ((((tasa_interes r / 100) + 1) ^ 12 - 1) * 100)))
       df_mes"

text \<open>
  The frame that all of them should build: the reconciled rows with the current
  effective-annual rate given by the conversion \<open>interes_ea\<close>.
\<close>

definition dataset_of :: "df_to list \<Rightarrow> df_mes list" where
  "dataset_of df =
     map (\<lambda>r. \<lparr>saldo_actual = saldo_actual_trasaccion r, tasa_ea_original = TASA_EA r,
                interes_ea_actual = interes_ea (tasa_interes r)\<rparr>) df"

section \<open>Balances by rate band (saldo_to_mes)\<close>

text \<open>
  The bin edges of line 772, \<open>[np.NINF, 0, 1, ..., 30, np.inf]\<close>, and the labels of
  line 773.
\<close>

datatype borde = NINF | Val real | PINF

definition ranges :: "borde list" where
  "ranges = [NINF, Val 0, Val 1, Val 11, Val 21, Val 24, Val 26, Val 26.5, Val 27,
             Val 27.5, Val 28, Val 29, Val 30, PINF]"

definition grupo_tasas :: "string list" where
  "grupo_tasas =
     [''a. 0%'', ''b. 0.1% - 0.9%'', ''c. 1% - 10.9%'', ''d. 11% - 20.9%'',
      ''e. 21% - 23.9%'', ''f. 24% - 25.9%'', ''g. 26% - 26.4%'', ''h. 26.5% - 26.9%'',
      ''i. 27% - 27.4%'', ''j. 27.5% - 27.9%'', ''k. 28% - 28.9%'', ''l. 29% - 29.9%'',
      ''m. >30%'']"

fun borde_less :: "borde \<Rightarrow> real \<Rightarrow> bool" where
  "borde_less NINF x = True"
| "borde_less (Val b) x = (b < x)"
| "borde_less PINF x = False"

fun borde_ge :: "borde \<Rightarrow> real \<Rightarrow> bool" where
  "borde_ge NINF x = False"
| "borde_ge (Val b) x = (x \<le> b)"
| "borde_ge PINF x = True"

text \<open>
  \<open>pd.cut(x, bins)\<close> with the default \<open>right=True\<close>: the index of the interval
  \<open>(bins[i], bins[i+1]]\<close> that holds \<open>x\<close>, NaN when there is none.
\<close>

fun cut_bin :: "borde list \<Rightarrow> real \<Rightarrow> nat option" where
  "cut_bin (a # b # bins) x =
     (if borde_less a x \<and> borde_ge b x then Some 0
      else map_option Suc (cut_bin (b # bins) x))"
| "cut_bin bins x = None"

definition pd_cut :: "real \<Rightarrow> string option" where
  "pd_cut x = map_option (\<lambda>i. grupo_tasas ! i) (cut_bin ranges x)"

text \<open>
  \<open>groupby(by=[key]).agg({'saldo_actual_trasaccion':'sum'})\<close>: one row per key value,
  keys in increasing order, rows with a NaN key dropped.
\<close>

definition groupby_sum :: "(real option \<times> real) list \<Rightarrow> (real \<times> real) list" where
  "groupby_sum rows =
     map (\<lambda>k. (k, sum_list (map snd (filter (\<lambda>r. fst r = Some k) rows))))
       (sort (remdups (List.map_filter fst rows)))"

text \<open>
  \<open>sort_values(by='saldo_actual_trasaccion', ascending=False)\<close>. Groups of equal
  balance stay in key order here; pandas leaves their order open, and no property below
  depends on it.
\<close>

definition sort_values_desc :: "(real \<times> real) list \<Rightarrow> (real \<times> real) list" where
  "sort_values_desc rows = sort_key (\<lambda>r. - snd r) rows"

text \<open>
  A row of \<open>saldo_sinRango\<close>: the rate of the group, the summed balance, the period
  and the rate type. \<open>saldo_conRango\<close> adds the band label.
\<close>

record saldo_sr =
  interes :: real
  saldo_grupo :: real
  mes :: string
  tipo_tasa :: string



text \<open>
  Lines 796-802: inside the function the groups of the original rate are also summed
  per band, one row per label.
\<close>

definition saldo_cr_to :: "df_to list \<Rightarrow> (string \<times> real) list" where
  "saldo_cr_to df_mes_input =
     map (\<lambda>l. (l, sum_list (map snd (filter (\<lambda>(k, s). pd_cut (round_dec 2 k) = Some l)
                  (sort_values_desc (groupby_sum
                     (map (\<lambda>r. (tasa_ea_original r, saldo_actual r))
                        (saldo_to_mes_df_to df_mes_input))))))))
       grupo_tasas"


definition groups_total :: "saldo_sr list \<Rightarrow> string \<Rightarrow> real" where
  "groups_total rows tipo = sum_list (map saldo_grupo (filter (\<lambda>r. tipo_tasa r = tipo) rows))"

section \<open>Worked examples\<close>

text \<open>A reconciled frame of two rows and the two frames that \<open>saldo_to_mes\<close> makes of it.\<close>

definition ejemplo_df_to :: "df_to list" where
  "ejemplo_df_to = [fila_df_to txn_cuotas (Some 26.5), fila_df_to txn_totalero (Some 0)]"

definition ejemplo_sinRango :: "saldo_sr list" where
  "ejemplo_sinRango =
     [\<lparr>interes = 26.82, saldo_grupo = 1500, mes = ''2023-03-31'', tipo_tasa = ''Tasa actual''\<rparr>,
      \<lparr>interes = 26.5, saldo_grupo = 1000, mes = ''2023-03-31'', tipo_tasa = ''Tasa original''\<rparr>,
      \<lparr>interes = 0, saldo_grupo = 500, mes = ''2023-03-31'', tipo_tasa = ''Tasa original''\<rparr>]"


section \<open>Properties\<close>

subsection \<open>Rounding\<close>

lemma round_half_even_error: "\<bar>of_int (round_half_even x) - x\<bar> \<le> 1/2"
proof -
  have "of_int \<lfloor>x\<rfloor> \<le> x" "x < of_int \<lfloor>x\<rfloor> + 1" by linarith+
  then show ?thesis
    unfolding round_half_even_def Let_def by (auto simp: abs_le_iff)
qed

lemma round_half_even_near:
  assumes "\<bar>x - of_int k\<bar> < 1/2"
  shows "round_half_even x = k"
proof -
  have b: "of_int \<lfloor>x\<rfloor> \<le> x" "x < of_int \<lfloor>x\<rfloor> + 1" by linarith+
  from assms have c: "of_int k - 1/2 < x" "x < of_int k + 1/2" by linarith+
  have "\<lfloor>x\<rfloor> = k \<or> \<lfloor>x\<rfloor> = k - 1"
  proof -
    have "of_int \<lfloor>x\<rfloor> < (of_int k :: real) + 1/2" using b c by linarith
    then have "\<lfloor>x\<rfloor> \<le> k" by linarith
    moreover have "(of_int k :: real) - 3/2 < of_int \<lfloor>x\<rfloor>" using b c by linarith
    then have "k - 1 \<le> \<lfloor>x\<rfloor>" by linarith
    ultimately show ?thesis by linarith
  qed
  then show ?thesis
  proof
    assume f: "\<lfloor>x\<rfloor> = k"
    then have "x - of_int \<lfloor>x\<rfloor> < 1/2" using c by simp
    then show ?thesis unfolding round_half_even_def Let_def using f by simp
  next
    assume f: "\<lfloor>x\<rfloor> = k - 1"
    then have "1/2 < x - of_int \<lfloor>x\<rfloor>" using c by simp
    then show ?thesis unfolding round_half_even_def Let_def using f by simp
  qed
qed

lemma round_half_even_nonneg: "0 \<le> x \<Longrightarrow> 0 \<le> round_half_even x"
  unfolding round_half_even_def Let_def by auto

lemma round_dec_error: "\<bar>round_dec n x - x\<bar> \<le> 1 / (2 * 10 ^ n)"
proof -
  define p :: real where "p = 10 ^ n"
  have p: "0 < p" by (simp add: p_def)
  define e where "e = of_int (round_half_even (x * p)) - x * p"
  have e: "\<bar>e\<bar> \<le> 1/2" unfolding e_def by (rule round_half_even_error)
  have "round_dec n x - x = e / p"
    unfolding round_dec_def e_def p_def [symmetric] using p by (simp add: field_simps)
  then have "\<bar>round_dec n x - x\<bar> = \<bar>e\<bar> / p" using p by simp
  also have "\<dots> \<le> (1/2) / p" using e p by (intro divide_right_mono) simp_all
  finally show ?thesis by (simp add: p_def)
qed

lemma round_dec_grid: "\<exists>k::int. round_dec n x = of_int k / 10 ^ n"
  unfolding round_dec_def by blast

lemma round_dec_near:
  assumes "\<bar>x - of_int k / 10 ^ n\<bar> < 1 / (2 * 10 ^ n)"
  shows "round_dec n x = of_int k / 10 ^ n"
proof -
  have p: "(0::real) < 10 ^ n" by simp
  have "\<bar>x - of_int k / 10 ^ n\<bar> * 10 ^ n < 1 / (2 * 10 ^ n) * 10 ^ n"
    using assms p by (simp only: mult_strict_right_mono)
  moreover have "\<bar>x - of_int k / 10 ^ n\<bar> * 10 ^ n = \<bar>x * 10 ^ n - of_int k\<bar>"
  proof -
    have "\<bar>x - of_int k / 10 ^ n\<bar> * 10 ^ n = \<bar>(x - of_int k / 10 ^ n) * 10 ^ n\<bar>"
      using p by (simp add: abs_mult)
    also have "(x - of_int k / 10 ^ n) * 10 ^ n = x * 10 ^ n - of_int k"
      using p by (simp add: field_simps)
    finally show ?thesis .
  qed
  ultimately have "\<bar>x * 10 ^ n - of_int k\<bar> < 1/2" using p by simp
  then have "round_half_even (x * 10 ^ n) = k" by (rule round_half_even_near)
  then show ?thesis unfolding round_dec_def by simp
qed

lemma round_dec_nonneg: "0 \<le> x \<Longrightarrow> 0 \<le> round_dec n x"
  unfolding round_dec_def by (simp add: round_half_even_nonneg)

subsection \<open>Round trip of the two conversions\<close>

lemma power_add_lower:
  fixes a d :: real
  assumes "1 \<le> a" "0 \<le> d"
  shows "a ^ n + of_nat n * d \<le> (a + d) ^ n"
proof (induction n)
  case 0
  show ?case by simp
next
  case (Suc n)
  have a1: "1 \<le> a ^ n" using assms by (simp add: one_le_power)
  have nd: "0 \<le> of_nat n * d" using assms by simp
  have s1: "of_nat n * d \<le> a * (of_nat n * d)"
    using mult_right_mono [OF assms(1) nd] by simp
  have s2: "d \<le> d * a ^ n"
    using mult_left_mono [OF a1 assms(2)] by simp
  have s3: "0 \<le> d * (of_nat n * d)" using assms nd by simp
  have "a ^ Suc n + of_nat (Suc n) * d = a * a ^ n + of_nat n * d + d"
    by (simp add: algebra_simps)
  also have "\<dots> \<le> a * a ^ n + a * (of_nat n * d) + d * a ^ n + d * (of_nat n * d)"
    using s1 s2 s3 by linarith
  also have "\<dots> = (a + d) * (a ^ n + of_nat n * d)"
    by (simp add: algebra_simps)
  also have "\<dots> \<le> (a + d) * (a + d) ^ n"
    using Suc assms by (intro mult_left_mono) simp_all
  finally show ?case by simp
qed

lemma power_close:
  fixes x r d :: real
  assumes x1: "1 \<le> x" and r1: "1 \<le> r" and d0: "0 \<le> d"
    and close: "\<bar>r ^ n - x ^ n\<bar> < of_nat n * d"
  shows "\<bar>r - x\<bar> \<le> d"
proof -
  have up: "r \<le> x + d"
  proof (rule ccontr)
    assume "\<not> r \<le> x + d"
    then have lt: "x + d \<le> r" by simp
    have "x ^ n + of_nat n * d \<le> (x + d) ^ n"
      using x1 d0 by (rule power_add_lower)
    moreover have "(x + d) ^ n \<le> r ^ n"
      using lt x1 d0 by (intro power_mono) simp_all
    ultimately show False using close by linarith
  qed
  have lo: "x - d \<le> r"
  proof (rule ccontr)
    assume "\<not> x - d \<le> r"
    then have lt: "r + d \<le> x" by simp
    have "r ^ n + of_nat n * d \<le> (r + d) ^ n"
      using r1 d0 by (rule power_add_lower)
    moreover have "(r + d) ^ n \<le> x ^ n"
      using lt r1 d0 by (intro power_mono) simp_all
    ultimately show False using close by linarith
  qed
  from up lo show ?thesis by linarith
qed

lemma powr_twelfth_power:
  fixes y :: real
  assumes "0 \<le> y"
  shows "(y powr (30/360)) ^ 12 = y"
proof (cases "y = 0")
  case True
  then show ?thesis by simp
next
  case False
  with assms have ypos: "0 < y" by simp
  then have rpos: "0 < y powr (30/360)" by simp
  have "(y powr (30/360)) ^ 12 = (y powr (30/360)) powr (of_nat 12)"
    using rpos by (simp only: powr_realpow)
  also have "\<dots> = y powr ((30/360) * of_nat 12)" by (simp only: powr_powr)
  also have "(30/360) * of_nat 12 = (1::real)" by simp
  finally show ?thesis using ypos by simp
qed

lemma root12_close:
  fixes x y :: real
  assumes x1: "1 \<le> x" and y1: "1 \<le> y" and close: "\<bar>y - x ^ 12\<bar> \<le> 1 / 20000"
  shows "\<bar>y powr (30/360) - x\<bar> \<le> 1 / 200000"
proof -
  define r where "r = y powr (30/360)"
  have r12: "r ^ 12 = y" unfolding r_def using y1 by (intro powr_twelfth_power) simp
  have r1: "1 \<le> r" unfolding r_def using y1 by (intro ge_one_powr_ge_zero) simp_all
  have "\<bar>r ^ 12 - x ^ 12\<bar> < of_nat 12 * (1 / 200000 :: real)"
    using close unfolding r12 by simp
  with x1 r1 have "\<bar>r - x\<bar> \<le> 1 / 200000"
    by (intro power_close [where n = 12]) simp_all
  then show ?thesis unfolding r_def .
qed

lemma interes_ea_nonneg:
  assumes "0 \<le> r"
  shows "0 \<le> interes_ea r"
proof -
  have "1 \<le> (r / 100 + 1) ^ 12" using assms by (intro one_le_power) simp
  then show ?thesis unfolding interes_ea_def by (intro round_dec_nonneg) simp
qed

lemma roundtrip_exact_close:
  assumes r0: "0 \<le> r"
  shows "\<bar>((1 + interes_ea r / 100) powr (30/360) - 1) * 100 - r\<bar> \<le> 1 / 2000"
proof -
  define x where "x = r / 100 + 1"
  define E where "E = interes_ea r"
  define y where "y = 1 + E / 100"
  have x1: "1 \<le> x" unfolding x_def using r0 by simp
  have E0: "0 \<le> E" unfolding E_def using r0 by (rule interes_ea_nonneg)
  have y1: "1 \<le> y" unfolding y_def using E0 by simp
  define e where "e = E - (x ^ 12 - 1) * 100"
  have "\<bar>e\<bar> \<le> 1 / (2 * 10 ^ 2)"
    unfolding e_def E_def interes_ea_def x_def by (rule round_dec_error)
  then have e: "\<bar>e\<bar> \<le> 1 / 200" by simp
  have "y - x ^ 12 = e / 100"
    unfolding y_def e_def by (simp add: field_simps)
  then have "\<bar>y - x ^ 12\<bar> = \<bar>e / 100\<bar>" by (simp only:)
  then have "\<bar>y - x ^ 12\<bar> = \<bar>e\<bar> / 100" by simp
  with e have "\<bar>y - x ^ 12\<bar> \<le> 1 / 20000" by simp
  with x1 y1 have c: "\<bar>y powr (30/360) - x\<bar> \<le> 1 / 200000" by (rule root12_close)
  define t where "t = y powr (30/360) - x"
  have "((1 + E / 100) powr (30/360) - 1) * 100 - r = t * 100"
    unfolding t_def y_def x_def by (simp add: field_simps)
  then have "\<bar>((1 + E / 100) powr (30/360) - 1) * 100 - r\<bar> = \<bar>t * 100\<bar>"
    by (simp only:)
  also have "\<dots> = \<bar>t\<bar> * 100" by (simp add: abs_mult)
  also have "\<dots> \<le> 1 / 2000" using c unfolding t_def by simp
  finally show ?thesis unfolding E_def .
qed

text \<open>
  C6, as amended. For a nominal rate \<open>r \<ge> 0\<close> the monthly-value conversion of
  the effective-annual conversion of \<open>r\<close> returns a rate within 0.0055 of
  \<open>r\<close> (0.0005 from the first rounding, carried through the twelfth root, and 0.005
  from the second), and it returns \<open>r\<close> itself when \<open>r\<close> has at most two
  decimals.
\<close>

theorem roundtrip_nonneg:
  assumes r0: "0 \<le> r"
  shows "\<exists>m. tasa_original_mv (interes_ea r) = Inr m \<and> \<bar>m - r\<bar> \<le> 11 / 2000
           \<and> ((\<exists>k::int. r = of_int k / 100) \<longrightarrow> m = r)"
proof -
  define z where "z = ((1 + interes_ea r / 100) powr (30/360) - 1) * 100"
  define m where "m = round_dec 2 z"
  have E0: "0 \<le> interes_ea r" using r0 by (rule interes_ea_nonneg)
  have eq: "tasa_original_mv (interes_ea r) = Inr m"
    unfolding tasa_original_mv_def Let_def m_def z_def using E0 by simp
  have zr: "\<bar>z - r\<bar> \<le> 1 / 2000" unfolding z_def using r0 by (rule roundtrip_exact_close)
  have "\<bar>m - z\<bar> \<le> 1 / (2 * 10 ^ 2)" unfolding m_def by (rule round_dec_error)
  then have mz: "\<bar>m - z\<bar> \<le> 1 / 200" by simp
  have tol: "\<bar>m - r\<bar> \<le> 11 / 2000" using zr mz by linarith
  have grid: "m = r" if "\<exists>k::int. r = of_int k / 100"
  proof -
    from that obtain k :: int where k: "r = of_int k / 100" ..
    have "\<bar>z - of_int k / 10 ^ 2\<bar> < 1 / (2 * 10 ^ 2)" using zr k by simp
    then have "round_dec 2 z = of_int k / 10 ^ 2" by (rule round_dec_near)
    then show ?thesis unfolding m_def using k by simp
  qed
  from eq tol grid show ?thesis by blast
qed

text \<open>Witness for C6: the rate 2 percent comes back unchanged.\<close>

theorem roundtrip_nonneg_witness:
  "(0::real) \<le> 2 \<and> tasa_original_mv (interes_ea 2) = Inr 2"
proof -
  have "\<exists>k::int. (2::real) = of_int k / 100" by (rule exI [of _ 200]) simp
  then show ?thesis using roundtrip_nonneg [of 2] by auto
qed

text \<open>
  Counterexample to C6 as stated (every \<open>r > -100\<close>): at \<open>r = -99\<close> the
  effective-annual rate rounds to -100, and the round trip returns -100, one full point
  away from \<open>r\<close>.
\<close>

theorem roundtrip_counterexample:
  "tasa_original_mv (interes_ea (- 99)) = Inr (- 100)"
proof -
  have "interes_ea (- 99) = - 100" by code_simp
  moreover have "tasa_original_mv (- 100) = Inr (- 100)"
    unfolding tasa_original_mv_def round_dec_def round_half_even_def Let_def by simp
  ultimately show ?thesis by simp
qed

subsection \<open>Reference dates\<close>

lemma last_date_2023_01_31:
  "last_date \<lparr>year = 2023, month = 1, day = 31\<rparr> = Inr \<lparr>year = 2023, month = 1, day = 28\<rparr>"
  by code_simp

text \<open>
  C9. The four modes are the only ones accepted, and any other mode raises InvalidDate
  (\<open>get_format_date_invalid\<close> below). The dates are right when the reference date
  comes from a \<open>'%Y-%m'\<close> string (\<open>dates_from_string\<close> below). But a
  reference date left to default to today keeps today's day, and \<open>last_date\<close>
  then adds one month, which cuts the day to the length of the next month, before it
  subtracts the day: run on 2023-01-31, mode \<open>last_date\<close> formats 2023-01-28, while
  January has 31 days.
\<close>

theorem last_date_today_day31:
  "(case ReferenceDate \<lparr>year = 2023, month = 1, day = 31\<rparr> None of
      Inl e \<Rightarrow> Inl e
    | Inr ref_date \<Rightarrow> get_format_date strftime ref_date ''last_date'' format)
   = Inr (strftime \<lparr>year = 2023, month = 1, day = 28\<rparr> format)
   \<and> monthrange 2023 1 = 31"
  unfolding ReferenceDate_def get_format_date_def
  by (simp add: last_date_2023_01_31 monthrange_def)

lemma get_format_date_invalid:
  assumes "int_date \<noteq> ''first_date''" "int_date \<noteq> ''last_date''"
    "int_date \<noteq> ''prev_first_date''" "int_date \<noteq> ''prev_last_date''"
  shows "get_format_date strftime ref_date int_date format = Inl InvalidDate"
  unfolding get_format_date_def using assms by simp

lemma get_format_date_valid:
  "get_format_date strftime ref_date ''first_date'' format
     = map_sum id (\<lambda>d. strftime d format) (first_date ref_date)"
  "get_format_date strftime ref_date ''last_date'' format
     = map_sum id (\<lambda>d. strftime d format) (last_date ref_date)"
  "get_format_date strftime ref_date ''prev_first_date'' format
     = map_sum id (\<lambda>d. strftime d format) (prev_first_date ref_date)"
  "get_format_date strftime ref_date ''prev_last_date'' format
     = map_sum id (\<lambda>d. strftime d format) (prev_last_date ref_date)"
  unfolding get_format_date_def by simp_all

lemma min_monthrange_one: "min (monthrange y m) 1 = 1"
  unfolding monthrange_def by simp

lemma dates_from_string:
  assumes y: "1 < y" "y < 9999" and m: "1 \<le> m" "m \<le> 12"
  defines "ref_date \<equiv> \<lparr>year = y, month = m, day = 1\<rparr>"
  shows "ReferenceDate today (Some (y, m)) = Inr ref_date"
    and "first_date ref_date = Inr \<lparr>year = y, month = m, day = 1\<rparr>"
    and "last_date ref_date = Inr \<lparr>year = y, month = m, day = monthrange y m\<rparr>"
    and "prev_first_date ref_date
           = Inr \<lparr>year = prev_year y m, month = prev_month m, day = 1\<rparr>"
    and "prev_last_date ref_date
           = Inr \<lparr>year = prev_year y m, month = prev_month m,
                  day = monthrange (prev_year y m) (prev_month m)\<rparr>"
proof -
  show "ReferenceDate today (Some (y, m)) = Inr ref_date"
    unfolding ReferenceDate_def ref_date_def using y m by simp
  show "first_date ref_date = Inr \<lparr>year = y, month = m, day = 1\<rparr>"
    unfolding first_date_def ref_date_def by simp
  have one: "nat 1 = Suc 0" by simp
  show "last_date ref_date = Inr \<lparr>year = y, month = m, day = monthrange y m\<rparr>"
  proof (cases "m = 12")
    case True
    then show ?thesis
      unfolding last_date_def ref_date_def add_relativedelta_months_def Let_def
      using y by (simp add: one min_monthrange_one monthrange_def)
  next
    case False
    then show ?thesis
      unfolding last_date_def ref_date_def add_relativedelta_months_def Let_def
      using y m by (simp add: one min_monthrange_one)
  qed
  show "prev_first_date ref_date
           = Inr \<lparr>year = prev_year y m, month = prev_month m, day = 1\<rparr>"
    unfolding prev_first_date_def ref_date_def add_relativedelta_months_def Let_def
      prev_year_def prev_month_def
    using y m by (simp add: min_monthrange_one)
  show "prev_last_date ref_date
           = Inr \<lparr>year = prev_year y m, month = prev_month m,
                  day = monthrange (prev_year y m) (prev_month m)\<rparr>"
    unfolding prev_last_date_def ref_date_def prev_year_def prev_month_def
    using y m by (simp add: one monthrange_def)
qed

subsection \<open>Balance composition\<close>

lemma assert_columns_same: "assert_columns a a = Inl AssertionError"
  unfolding assert_columns_def by (simp add: list_all_iff)

lemma assert_columns_differ:
  assumes "length a \<le> length b" "i < length a" "a ! i \<noteq> b ! i"
  shows "assert_columns a b = Inr ()"
  unfolding assert_columns_def using assms by (auto simp: list_all_iff)

text \<open>
  C4. The assertion of lines 147-150 is \<open>assert not all(...)\<close>: it fails when every
  column of the computed frame equals the historical one, and it passes as soon as one
  differs. With the historical columns that \<open>query_comp_balance\<close> selects the
  schemas match and the step raises AssertionError; with a differing column it goes on.
\<close>

theorem assert_columns_inverted:
  "assert_columns (set_index ''periodo'' df_composicion_saldo_columns)
     [''saldo_total'', ''saldo_capital'', ''saldo_intereses'', ''saldo_mora'', ''saldo_otros'']
     = Inl AssertionError
   \<and> assert_columns (set_index ''periodo'' df_composicion_saldo_columns)
     [''saldo_total'', ''capital'', ''saldo_intereses'', ''saldo_mora'', ''saldo_otros'']
     = Inr ()"
  by code_simp

lemma balance_composition_aborts: "balance_composition df_columns = Inl AttributeError"
  unfolding balance_composition_def getattr_column_def df_composicion_saldo_columns_def
  by simp

subsection \<open>Rate reconciliation\<close>

lemma scan_for_state:
  "1 \<le> m \<Longrightarrow>
     1 \<le> snd (snd (scan_for k (a, m)))
     \<and> 12 * fst (snd (scan_for k (a, m))) + snd (snd (scan_for k (a, m))) = 12 * a + m - int k
     \<and> length (fst (scan_for k (a, m))) = k"
proof (induction k arbitrary: a m)
  case 0
  then show ?case by simp
next
  case (Suc k)
  show ?case
  proof (cases "m - 1 = 0")
    case True
    then show ?thesis using Suc.IH [of 12 "a - 1"] by (simp add: split_beta)
  next
    case False
    with Suc.prems have "1 \<le> m - 1" by simp
    then show ?thesis using Suc.IH [of "m - 1" a] False by (simp add: split_beta)
  qed
qed

lemma scan_while_terminates_aux:
  assumes n: "1 \<le> num_mes"
  shows "1 \<le> m \<Longrightarrow> nat (12 * a + m - 12 * anio_final) = d \<Longrightarrow>
     \<exists>meses. scan_while num_mes anio_final (a, m) acc = Some (acc @ meses)
        \<and> (anio_final \<le> a \<longrightarrow> meses \<noteq> [])"
proof (induction d arbitrary: a m acc rule: less_induct)
  case (less d)
  show ?case
  proof (cases "anio_final \<le> a")
    case False
    then have "scan_while num_mes anio_final (a, m) acc = Some acc"
      by (subst scan_while.simps) simp
    then show ?thesis using False by simp
  next
    case True
    define k where "k = nat num_mes"
    define ms where "ms = fst (scan_for k (a, m))"
    define a' where "a' = fst (snd (scan_for k (a, m)))"
    define m' where "m' = snd (snd (scan_for k (a, m)))"
    have k: "1 \<le> k" unfolding k_def using n by simp
    have st: "1 \<le> m'" "12 * a' + m' = 12 * a + m - int k" "length ms = k"
      using scan_for_state [OF less.prems(1), of k a] unfolding ms_def a'_def m'_def by simp_all
    have ne: "ms \<noteq> []" using st(3) k by auto
    have dec: "nat (12 * a' + m' - 12 * anio_final) < d"
      using st(2) k True less.prems by linarith
    from less.IH [OF dec st(1) refl, of "acc @ ms"]
    obtain rest where rest: "scan_while num_mes anio_final (a', m') (acc @ ms) = Some ((acc @ ms) @ rest)"
      by blast
    have "scan_while num_mes anio_final (a, m) acc = scan_while num_mes anio_final (a', m') (acc @ ms)"
      using True less.prems(1)
      by (subst scan_while.simps) (simp add: k_def [symmetric] ms_def a'_def m'_def)
    with rest have "scan_while num_mes anio_final (a, m) acc = Some (acc @ (ms @ rest))" by simp
    moreover have "ms @ rest \<noteq> []" using ne by simp
    ultimately show ?thesis by blast
  qed
qed

lemma scan_while_terminates:
  assumes "1 \<le> num_mes"
  shows "\<exists>meses. scan_while num_mes (num_anio - 10) (num_anio, num_mes) [] = Some meses \<and> meses \<noteq> []"
  using scan_while_terminates_aux [OF assms assms refl, where a = num_anio and anio_final = "num_anio - 10" and acc = "[]"] by simp

lemma scan_while_no_month:
  assumes "num_mes < 1"
  shows "scan_while num_mes anio_final (num_anio, num_mes) [] = Some []"
  using assms by (subst scan_while.simps) simp

lemma tasas_originales_no_month:
  assumes "num_mes < 1"
  shows "tasas_originales mes_base maestro_facturacion num_mes num_anio = Some (Inl ValueError)"
  unfolding tasas_originales_def using scan_while_no_month [OF assms] by simp

lemma drop_duplicates_from_keys:
  "distinct (map llave (drop_duplicates_from seen rs))
   \<and> set (map llave (drop_duplicates_from seen rs)) \<inter> set seen = {}
   \<and> set (drop_duplicates_from seen rs) \<subseteq> set rs"
proof (induction rs arbitrary: seen)
  case Nil
  show ?case by simp
next
  case (Cons r rs)
  show ?case
  proof (cases "llave r \<in> set seen")
    case True
    then show ?thesis using Cons.IH [of seen] by auto
  next
    case False
    then show ?thesis using Cons.IH [of "llave r # seen"] by auto
  qed
qed

lemma distinct_drop_duplicates: "distinct (map llave (drop_duplicates rs))"
  unfolding drop_duplicates_def using drop_duplicates_from_keys [of "[]" rs] by simp

lemma set_drop_duplicates: "set (drop_duplicates rs) \<subseteq> set rs"
  unfolding drop_duplicates_def using drop_duplicates_from_keys [of "[]" rs] by simp

lemma columnas_fila_missing:
  "(columnas ((fila t None None)\<lparr>TASA_EA := Some (interes_ea (tasa_interes (fila t None None)))\<rparr>))
     \<lparr>TASA_EA := map_option (round_dec 1)
        (TASA_EA (columnas ((fila t None None)\<lparr>TASA_EA := Some (interes_ea (tasa_interes (fila t None None)))\<rparr>)))\<rparr>
   = fallback t"
  unfolding columnas_def fila_def fallback_def fila_df_to_def by simp

text \<open>
  C8, as amended. When no month of the lookback window yields a row of the reference
  master, \<open>tasas_originales\<close> raises nothing: with at least one month to scan
  (\<open>num_mes \<ge> 1\<close>) and unique keys in the transaction table it completes and
  returns one row per transaction, in the order of the table, each with the fallback
  original rate.
\<close>

theorem empty_reference_all_fallback:
  assumes n: "1 \<le> num_mes" and d: "distinct (map llave mes_base)"
    and e: "reference_empty_in_window mes_base maestro_facturacion num_mes num_anio"
  shows "tasas_originales mes_base maestro_facturacion num_mes num_anio
           = Some (Inr (map fallback mes_base))"
proof -
  from scan_while_terminates [OF n, of num_anio] obtain meses where
    scan: "scan_while num_mes (num_anio - 10) (num_anio, num_mes) [] = Some meses"
    and ne: "meses \<noteq> []" by blast
  from e scan have "\<forall>am\<in>set meses. sql_1 mes_base maestro_facturacion am = []"
    unfolding reference_empty_in_window_def by (simp add: list_all_iff)
  then have c: "concat (map (sql_1 mes_base maestro_facturacion) meses) = []" by simp
  have m: "merge_left mes_base [] = Inr (map (\<lambda>t. fila t None None) mes_base)"
    unfolding merge_left_def using d by simp
  have f1: "filter (\<lambda>r. TASA_EA r = None) (map (\<lambda>t. fila t None None) mes_base)
              = map (\<lambda>t. fila t None None) mes_base"
    by (simp add: fila_def filter_map comp_def)
  have f2: "filter (\<lambda>r. FECHA r \<noteq> None) (map (\<lambda>t. fila t None None) mes_base) = []"
    by (simp add: fila_def filter_map comp_def)
  show ?thesis
    unfolding tasas_originales_def Let_def
    by (simp only: scan option.case ne if_False c list.pred_inject not_True_eq_False
          drop_duplicates_def drop_duplicates_from.simps m sum.case f1 f2 append_Nil
          map_map comp_def columnas_fila_missing)
qed


text \<open>
  Witness for C8: two transactions and a master row of another product, scanned from
  January 2023.
\<close>

theorem empty_reference_all_fallback_witness:
  "(1::int) \<le> 1 \<and> distinct (map llave [txn_cuotas, txn_totalero])
   \<and> reference_empty_in_window [txn_cuotas, txn_totalero]
        [maestro_cuotas (Some 25)\<lparr>p2_NEGOCIO := ''P9''\<rparr>] 1 2023
   \<and> tasas_originales [txn_cuotas, txn_totalero]
        [maestro_cuotas (Some 25)\<lparr>p2_NEGOCIO := ''P9''\<rparr>] 1 2023
      = Some (Inr [fallback txn_cuotas, fallback txn_totalero])"
proof -
  have a: "(1::int) \<le> 1" by simp
  have b: "distinct (map llave [txn_cuotas, txn_totalero])" by code_simp
  have c: "reference_empty_in_window [txn_cuotas, txn_totalero]
        [maestro_cuotas (Some 25)\<lparr>p2_NEGOCIO := ''P9''\<rparr>] 1 2023" by code_simp
  show ?thesis using a b c empty_reference_all_fallback [OF a b c] by simp
qed

text \<open>
  Counterexample to C8 as stated: with an empty reference master the reconciliation of
  one transaction returns normally, with the fallback rate 26.8.
\<close>

theorem empty_reference_counterexample:
  "tasas_originales [txn_cuotas] [] 3 2023
     = Some (Inr [fila_df_to txn_cuotas (Some (134 / 5))])"
  by code_simp

text \<open>
  C3. The rows are split by two different tests: \<open>missing\<close> takes the rows whose
  \<open>TASA_EA\<close> is NaN, \<open>complete\<close> the rows whose \<open>FECHA\<close> is not NaN. A
  transaction that matches a master row whose \<open>TASA_EA\<close> is NULL passes both tests,
  so it is returned twice, once with no original rate: one input row, two output rows.
  When no master rate is NULL and every transaction type is a number, the row count is
  kept and every rate is populated (\<open>row_count_preserved\<close> below).
\<close>

theorem null_master_rate_duplicates_row:
  "tasas_originales [txn_cuotas] [maestro_cuotas None] 3 2023
     = Some (Inr [fila_df_to txn_cuotas None, fila_df_to txn_cuotas (Some (134 / 5))])"
  by code_simp

text \<open>
  C2. A transaction with one deferred installment gets the original rate 0 when it
  matches a master row (the \<open>CASE\<close> of the query), but on the fallback path it gets
  the effective-annual rate of its nominal rate like any other row: 26.8 for a nominal
  rate of 2, not 0.
\<close>

theorem totalero_fallback_not_zero:
  "tasas_originales [txn_totalero] [maestro_totalero] 3 2023
     = Some (Inr [fila_df_to txn_totalero (Some 0)])
   \<and> tasas_originales [txn_totalero] [] 3 2023
     = Some (Inr [fila_df_to txn_totalero (Some (134 / 5))])"
  by code_simp

lemma fila_sel:
  "TASA_EA (fila t a b) = a" "FECHA (fila t a b) = b" "llave (fila t a b) = llave t"
  "tasa_interes (fila t a b) = tasa_interes t"
  unfolding fila_def by simp_all

lemma sql_1_case:
  "sql_1 p1s p2s am =
     concat (map (\<lambda>p1.
       map (\<lambda>p2. fila p1 (case_tasa_ea p1 p2) (Some (p2_FECHA p2)))
         (filter (\<lambda>p2. on_clause p1 p2 \<and> p2_FECHA p2 = (fst am, snd am, 1)) p2s)) p1s)"
  unfolding sql_1_def case_tasa_ea_def by simp

lemma in_concat_map_filter:
  "r \<in> set (concat (map (\<lambda>a. map (f a) (filter (P a) bs)) as))
     \<longleftrightarrow> (\<exists>a\<in>set as. \<exists>b\<in>set bs. P a b \<and> r = f a b)"
  by auto

lemma in_sql_1:
  "r \<in> set (sql_1 p1s p2s am)
     \<longleftrightarrow> (\<exists>t\<in>set p1s. \<exists>p2\<in>set p2s.
            (on_clause t p2 \<and> p2_FECHA p2 = (fst am, snd am, 1))
            \<and> r = fila t (case_tasa_ea t p2) (Some (p2_FECHA p2)))"
  unfolding sql_1_case by (rule in_concat_map_filter)

lemma sql_1_row:
  assumes "r \<in> set (concat (map (sql_1 p1s p2s) meses))"
  shows "\<exists>t\<in>set p1s. \<exists>p2\<in>set p2s. \<exists>am\<in>set meses.
           on_clause t p2 \<and> p2_FECHA p2 = (fst am, snd am, 1)
           \<and> r = fila t (case_tasa_ea t p2) (Some (p2_FECHA p2))"
proof -
  from assms obtain am where am: "am \<in> set meses" and r: "r \<in> set (sql_1 p1s p2s am)"
    by auto
  from r obtain t p2 where "t \<in> set p1s" "p2 \<in> set p2s" "on_clause t p2"
    "p2_FECHA p2 = (fst am, snd am, 1)" "r = fila t (case_tasa_ea t p2) (Some (p2_FECHA p2))"
    unfolding in_sql_1 by blast
  with am show ?thesis by blast
qed

lemma sql_1_has_row:
  assumes "t \<in> set p1s" "p2 \<in> set p2s" "am \<in> set meses"
    "on_clause t p2" "p2_FECHA p2 = (fst am, snd am, 1)"
  shows "llave t \<in> llave ` set (concat (map (sql_1 p1s p2s) meses))"
proof -
  let ?row = "fila t (case_tasa_ea t p2) (Some (p2_FECHA p2))"
  have "?row \<in> set (sql_1 p1s p2s am)"
    unfolding in_sql_1 using assms(1,2,4,5) by blast
  then have "?row \<in> set (concat (map (sql_1 p1s p2s) meses))"
    using assms(3) by auto
  then have "llave ?row \<in> llave ` set (concat (map (sql_1 p1s p2s) meses))"
    by (rule imageI)
  then show ?thesis by (simp only: fila_sel)
qed

lemma distinct_llave_eq:
  assumes "distinct (map llave xs)" "x \<in> set xs" "y \<in> set xs" "llave x = llave y"
  shows "x = y"
proof -
  have "inj_on llave (set xs)" using assms(1) by (simp add: distinct_map)
  from inj_onD [OF this assms(4) assms(2) assms(3)] show ?thesis .
qed

lemma columnas_fila: "columnas (fila t a b) = fila_df_to t a"
  unfolding columnas_def fila_def fila_df_to_def by simp

lemma fila_update: "(fila t a b)\<lparr>TASA_EA := c\<rparr> = fila t c b"
  unfolding fila_def by simp

lemma fila_df_to_update: "(fila_df_to t a)\<lparr>TASA_EA := c\<rparr> = fila_df_to t c"
  unfolding fila_df_to_def by simp

lemma fila_df_to_sel: "TASA_EA (fila_df_to t a) = a"
  unfolding fila_df_to_def by simp

lemma drop_duplicates_from_llaves:
  "llave ` set (drop_duplicates_from seen rs) = llave ` set rs - set seen"
proof (induction rs arbitrary: seen)
  case Nil
  show ?case by simp
next
  case (Cons r rs)
  show ?case
  proof (cases "llave r \<in> set seen")
    case True
    then show ?thesis using Cons.IH [of seen] by auto
  next
    case False
    then show ?thesis using Cons.IH [of "llave r # seen"] by auto
  qed
qed

lemma llaves_drop_duplicates: "llave ` set (drop_duplicates rs) = llave ` set rs"
  unfolding drop_duplicates_def using drop_duplicates_from_llaves [of "[]" rs] by simp

lemma lookback_scan:
  "scan_while num_mes (num_anio - 10) (num_anio, num_mes) [] = Some meses
     \<Longrightarrow> lookback num_mes num_anio = meses"
  unfolding lookback_def by simp

text \<open>The row that the left merge makes of a transaction of the table.\<close>

lemma merged_row:
  fixes maestro_facturacion :: "maestro list"
  assumes scan: "scan_while num_mes (num_anio - 10) (num_anio, num_mes) [] = Some meses"
    and d: "distinct (map llave mes_base)" and t: "t \<in> set mes_base"
    and x: "x = (case find (\<lambda>r. llave r = llave t)
                   (drop_duplicates (concat (map (sql_1 mes_base maestro_facturacion) meses))) of
                   None \<Rightarrow> fila t None None
                 | Some r \<Rightarrow> fila t (TASA_EA r) (FECHA r))"
  shows "(x = fila t None None
            \<and> (\<forall>p2\<in>set maestro_facturacion. \<not> in_window t p2 num_mes num_anio))
         \<or> (\<exists>p2\<in>set maestro_facturacion. in_window t p2 num_mes num_anio
               \<and> x = fila t (case_tasa_ea t p2) (Some (p2_FECHA p2)))"
proof -
  define C where "C = concat (map (sql_1 mes_base maestro_facturacion) meses)"
  define R where "R = drop_duplicates C"
  note x' = x [folded C_def, folded R_def]
  show ?thesis
  proof (cases "find (\<lambda>r. llave r = llave t) R")
    case None
    then have "\<forall>r\<in>set R. llave r \<noteq> llave t" by (simp add: find_None_iff)
    then have "llave t \<notin> llave ` set R" by auto
    then have no: "llave t \<notin> llave ` set C"
      unfolding R_def by (simp add: llaves_drop_duplicates)
    have "\<not> in_window t p2 num_mes num_anio" if p2: "p2 \<in> set maestro_facturacion" for p2
    proof
      assume "in_window t p2 num_mes num_anio"
      then obtain am where on: "on_clause t p2" and am: "am \<in> set meses"
        and fe: "p2_FECHA p2 = (fst am, snd am, 1)"
        unfolding in_window_def lookback_scan [OF scan] list_ex_iff by blast
      from sql_1_has_row [OF t p2 am on fe] have "llave t \<in> llave ` set C"
        unfolding C_def .
      with no show False by simp
    qed
    moreover have "x = fila t None None" using x' None by simp
    ultimately show ?thesis by blast
  next
    case (Some r0)
    then have r0: "r0 \<in> set R" "llave r0 = llave t"
      by (auto simp: find_Some_iff in_set_conv_nth)
    then have "r0 \<in> set (concat (map (sql_1 mes_base maestro_facturacion) meses))"
      unfolding R_def C_def using set_drop_duplicates by blast
    from sql_1_row [OF this] obtain t' p2 am where
      t': "t' \<in> set mes_base" and p2: "p2 \<in> set maestro_facturacion" and am: "am \<in> set meses"
      and on: "on_clause t' p2" and fe: "p2_FECHA p2 = (fst am, snd am, 1)"
      and r0eq: "r0 = fila t' (case_tasa_ea t' p2) (Some (p2_FECHA p2))" by blast
    have "llave t' = llave t" using r0(2) unfolding r0eq by (simp only: fila_sel)
    with d t' t have tt: "t' = t" by (rule distinct_llave_eq)
    have "list_ex (\<lambda>am. p2_FECHA p2 = (fst am, snd am, 1)) meses"
      unfolding list_ex_iff using am fe by blast
    then have w: "in_window t p2 num_mes num_anio"
      unfolding in_window_def lookback_scan [OF scan] using on tt by simp
    have "x = fila t (TASA_EA r0) (FECHA r0)" using x' Some by simp
    then have "x = fila t (case_tasa_ea t p2) (Some (p2_FECHA p2))"
      unfolding r0eq tt by (simp only: fila_sel)
    with p2 w show ?thesis by blast
  qed
qed

lemma tasas_originales_result:
  assumes res: "tasas_originales mes_base maestro_facturacion num_mes num_anio = Some (Inr out)"
  obtains meses where
    "scan_while num_mes (num_anio - 10) (num_anio, num_mes) [] = Some meses"
    "distinct (map llave mes_base)"
    "out = map (\<lambda>r. r\<lparr>TASA_EA := map_option (round_dec 1) (TASA_EA r)\<rparr>)
             (map columnas
               (filter (\<lambda>r. FECHA r \<noteq> None)
                  (map (\<lambda>t. case find (\<lambda>r. llave r = llave t)
                     (drop_duplicates (concat (map (sql_1 mes_base maestro_facturacion) meses))) of
                       None \<Rightarrow> fila t None None
                     | Some r \<Rightarrow> fila t (TASA_EA r) (FECHA r)) mes_base)
                @ map (\<lambda>r. r\<lparr>TASA_EA := Some (interes_ea (tasa_interes r))\<rparr>)
                    (filter (\<lambda>r. TASA_EA r = None)
                       (map (\<lambda>t. case find (\<lambda>r. llave r = llave t)
                          (drop_duplicates (concat (map (sql_1 mes_base maestro_facturacion) meses))) of
                            None \<Rightarrow> fila t None None
                          | Some r \<Rightarrow> fila t (TASA_EA r) (FECHA r)) mes_base))))"
proof -
  obtain meses where scan: "scan_while num_mes (num_anio - 10) (num_anio, num_mes) [] = Some meses"
    using res unfolding tasas_originales_def by (cases "scan_while num_mes (num_anio - 10) (num_anio, num_mes) []") simp_all
  define R where "R = drop_duplicates (concat (map (sql_1 mes_base maestro_facturacion) meses))"
  have ne: "meses \<noteq> []"
    using res unfolding tasas_originales_def by (auto simp: scan)
  have fl: "list_all (\<lambda>r. float_text (tipo_transaccion r))
              (concat (map (sql_1 mes_base maestro_facturacion) meses))"
    using res unfolding tasas_originales_def Let_def by (auto simp: scan ne split: if_splits)
  obtain X where m: "merge_left mes_base R = Inr X"
    using res unfolding tasas_originales_def Let_def R_def
    by (cases "merge_left mes_base
          (drop_duplicates (concat (map (sql_1 mes_base maestro_facturacion) meses)))")
       (simp_all add: scan ne fl)
  have d: "distinct (map llave mes_base)"
    using m unfolding merge_left_def by (simp split: if_splits)
  have X: "X = map (\<lambda>t. case find (\<lambda>r. llave r = llave t) R of
                       None \<Rightarrow> fila t None None
                     | Some r \<Rightarrow> fila t (TASA_EA r) (FECHA r)) mes_base"
    using m unfolding merge_left_def by (simp split: if_splits)
  have "tasas_originales mes_base maestro_facturacion num_mes num_anio
      = Some (Inr (map (\<lambda>r. r\<lparr>TASA_EA := map_option (round_dec 1) (TASA_EA r)\<rparr>)
             (map columnas
               (filter (\<lambda>r. FECHA r \<noteq> None) X
                @ map (\<lambda>r. r\<lparr>TASA_EA := Some (interes_ea (tasa_interes r))\<rparr>)
                    (filter (\<lambda>r. TASA_EA r = None) X)))))"
    unfolding tasas_originales_def Let_def
    by (simp only: scan option.case ne if_False fl not_True_eq_False R_def [symmetric] m sum.case)
  with res have "out = map (\<lambda>r. r\<lparr>TASA_EA := map_option (round_dec 1) (TASA_EA r)\<rparr>)
             (map columnas
               (filter (\<lambda>r. FECHA r \<noteq> None) X
                @ map (\<lambda>r. r\<lparr>TASA_EA := Some (interes_ea (tasa_interes r))\<rparr>)
                    (filter (\<lambda>r. TASA_EA r = None) X)))"
    by (simp only: option.inject sum.inject)
  then show ?thesis using that [OF scan d] unfolding X R_def by blast
qed

lemma salida_fila:
  "(\<lambda>r. r\<lparr>TASA_EA := map_option (round_dec 1) (TASA_EA r)\<rparr>) (columnas (fila t a b))
     = fila_df_to t (map_option (round_dec 1) a)"
  by (simp only: columnas_fila fila_df_to_sel fila_df_to_update)

lemma fallback_fila:
  "(\<lambda>r. r\<lparr>TASA_EA := Some (interes_ea (tasa_interes r))\<rparr>) (fila t a b)
     = fila t (Some (interes_ea (tasa_interes t))) b"
  by (simp only: fila_sel fila_update)

text \<open>
  C10. Every original rate that \<open>tasas_originales\<close> returns is the rounding to one
  decimal (line 505) of the rate the row had before: the rate that the \<open>CASE\<close> of
  the query gives for a master row matching the transaction in the window, or, when
  there is no such row or its rate is NULL, the fallback rate, itself the
  effective-annual rate of the nominal rate rounded to two decimals. Every transaction
  of the table gets such a row, and so every returned rate is a multiple of 0.1.
\<close>

theorem tasa_ea_one_decimal:
  assumes res: "tasas_originales mes_base maestro_facturacion num_mes num_anio = Some (Inr out)"
  shows "(\<forall>r\<in>set out. \<forall>v. TASA_EA r = Some v \<longrightarrow>
            (\<exists>t\<in>set mes_base. r = fila_df_to t (Some v) \<and>
               ((v = round_dec 1 (interes_ea (tasa_interes t))
                   \<and> ((\<forall>p2\<in>set maestro_facturacion. \<not> in_window t p2 num_mes num_anio)
                      \<or> (\<exists>p2\<in>set maestro_facturacion.
                            in_window t p2 num_mes num_anio \<and> case_tasa_ea t p2 = None)))
                \<or> (\<exists>p2\<in>set maestro_facturacion. \<exists>w.
                      in_window t p2 num_mes num_anio \<and> case_tasa_ea t p2 = Some w
                      \<and> v = round_dec 1 w))))
       \<and> (\<forall>t\<in>set mes_base. \<exists>v. fila_df_to t (Some v) \<in> set out)
       \<and> (\<forall>r\<in>set out. \<forall>v. TASA_EA r = Some v \<longrightarrow> (\<exists>k::int. v = of_int k / 10))"
proof -
  define g where "g ms = (\<lambda>t. case find (\<lambda>r. llave r = llave t)
      (drop_duplicates (concat (map (sql_1 mes_base maestro_facturacion) ms))) of
        None \<Rightarrow> fila t None None
      | Some r \<Rightarrow> fila t (TASA_EA r) (FECHA r))" for ms
  let ?rnd = "\<lambda>r::df_to. r\<lparr>TASA_EA := map_option (round_dec 1) (TASA_EA r)\<rparr>"
  let ?fb = "\<lambda>r::cruce_mes. r\<lparr>TASA_EA := Some (interes_ea (tasa_interes r))\<rparr>"
  from res obtain meses where
    scan: "scan_while num_mes (num_anio - 10) (num_anio, num_mes) [] = Some meses"
    and d: "distinct (map llave mes_base)"
    and out: "out = map ?rnd (map columnas
               (filter (\<lambda>r. FECHA r \<noteq> None) (map (g meses) mes_base)
                @ map ?fb (filter (\<lambda>r. TASA_EA r = None) (map (g meses) mes_base))))"
    unfolding g_def by (rule tasas_originales_result)
  have mr: "(g meses t = fila t None None
               \<and> (\<forall>p2\<in>set maestro_facturacion. \<not> in_window t p2 num_mes num_anio))
            \<or> (\<exists>p2\<in>set maestro_facturacion. in_window t p2 num_mes num_anio
                  \<and> g meses t = fila t (case_tasa_ea t p2) (Some (p2_FECHA p2)))"
    if "t \<in> set mes_base" for t
    using scan d that by (rule merged_row) (simp only: g_def)
  have set_out: "set out = (\<lambda>y. ?rnd (columnas y)) `
      ({x \<in> g meses ` set mes_base. FECHA x \<noteq> None}
       \<union> ?fb ` {x \<in> g meses ` set mes_base. TASA_EA x = None})"
    unfolding out by (simp only: set_map set_append set_filter image_image image_Un)
  have A: "\<exists>t\<in>set mes_base. r = fila_df_to t (Some v) \<and>
               ((v = round_dec 1 (interes_ea (tasa_interes t))
                   \<and> ((\<forall>p2\<in>set maestro_facturacion. \<not> in_window t p2 num_mes num_anio)
                      \<or> (\<exists>p2\<in>set maestro_facturacion.
                            in_window t p2 num_mes num_anio \<and> case_tasa_ea t p2 = None)))
                \<or> (\<exists>p2\<in>set maestro_facturacion. \<exists>w.
                      in_window t p2 num_mes num_anio \<and> case_tasa_ea t p2 = Some w
                      \<and> v = round_dec 1 w))"
    if r: "r \<in> set out" and v: "TASA_EA r = Some v" for r v
  proof -
    from r set_out consider
      (complete) t where "t \<in> set mes_base" "FECHA (g meses t) \<noteq> None"
        "r = ?rnd (columnas (g meses t))"
      | (missing) t where "t \<in> set mes_base" "TASA_EA (g meses t) = None"
        "r = ?rnd (columnas (?fb (g meses t)))"
      by auto
    then show ?thesis
    proof cases
      case complete
      from mr [OF complete(1)] complete(2) obtain p2 where
        p2: "p2 \<in> set maestro_facturacion" "in_window t p2 num_mes num_anio"
        and gt: "g meses t = fila t (case_tasa_ea t p2) (Some (p2_FECHA p2))"
        by (auto simp: fila_sel)
      have req: "r = fila_df_to t (map_option (round_dec 1) (case_tasa_ea t p2))"
        unfolding complete(3) gt by (rule salida_fila)
      with v have "map_option (round_dec 1) (case_tasa_ea t p2) = Some v"
        by (simp only: fila_df_to_sel)
      then obtain w where w: "case_tasa_ea t p2 = Some w" "v = round_dec 1 w" by auto
      from req w have "r = fila_df_to t (Some v)" by simp
      with complete(1) p2 w show ?thesis by blast
    next
      case missing
      have "\<exists>b. g meses t = fila t None b
                \<and> ((\<forall>p2\<in>set maestro_facturacion. \<not> in_window t p2 num_mes num_anio)
                   \<or> (\<exists>p2\<in>set maestro_facturacion.
                         in_window t p2 num_mes num_anio \<and> case_tasa_ea t p2 = None))"
      proof -
        from mr [OF missing(1)] consider
          (a) "g meses t = fila t None None"
              "\<forall>p2\<in>set maestro_facturacion. \<not> in_window t p2 num_mes num_anio"
          | (b) p2 where "p2 \<in> set maestro_facturacion" "in_window t p2 num_mes num_anio"
              "g meses t = fila t (case_tasa_ea t p2) (Some (p2_FECHA p2))"
          by blast
        then show ?thesis
        proof cases
          case a
          then show ?thesis by blast
        next
          case b
          from missing(2) have "case_tasa_ea t p2 = None"
            unfolding b(3) by (simp only: fila_sel)
          with b show ?thesis by auto
        qed
      qed
      then obtain b where
        gt: "g meses t = fila t None b"
        and why: "(\<forall>p2\<in>set maestro_facturacion. \<not> in_window t p2 num_mes num_anio)
                  \<or> (\<exists>p2\<in>set maestro_facturacion.
                        in_window t p2 num_mes num_anio \<and> case_tasa_ea t p2 = None)"
        by blast
      have "r = ?rnd (columnas (fila t (Some (interes_ea (tasa_interes t))) b))"
        unfolding missing(3) gt by (simp only: fallback_fila)
      then have req: "r = fila_df_to t (Some (round_dec 1 (interes_ea (tasa_interes t))))"
        by (simp only: salida_fila option.map)
      with v have "v = round_dec 1 (interes_ea (tasa_interes t))"
        by (simp only: fila_df_to_sel option.inject)
      with req missing(1) why show ?thesis by blast
    qed
  qed
  have B: "\<exists>v. fila_df_to t (Some v) \<in> set out" if t: "t \<in> set mes_base" for t
  proof (cases "TASA_EA (g meses t)")
    case None
    from mr [OF t] None obtain b where gt: "g meses t = fila t None b"
      by (auto simp: fila_sel)
    have "?rnd (columnas (?fb (g meses t))) \<in> set out"
      unfolding set_out using t None by blast
    moreover have "?rnd (columnas (?fb (g meses t)))
        = fila_df_to t (Some (round_dec 1 (interes_ea (tasa_interes t))))"
      unfolding gt by (simp only: fallback_fila salida_fila option.map)
    ultimately show ?thesis by auto
  next
    case (Some w)
    from mr [OF t] Some obtain p2 where
      gt: "g meses t = fila t (case_tasa_ea t p2) (Some (p2_FECHA p2))"
      by (auto simp: fila_sel)
    then have c: "case_tasa_ea t p2 = Some w" using Some by (simp add: fila_sel)
    have "FECHA (g meses t) \<noteq> None" unfolding gt by (simp add: fila_sel)
    then have "?rnd (columnas (g meses t)) \<in> set out"
      unfolding set_out using t by blast
    moreover have "?rnd (columnas (g meses t)) = fila_df_to t (Some (round_dec 1 w))"
      unfolding gt by (simp only: salida_fila c option.map)
    ultimately show ?thesis by auto
  qed
  have C: "\<exists>k::int. v = of_int k / 10" if r: "r \<in> set out" and v: "TASA_EA r = Some v" for r v
  proof -
    from A [OF r v] obtain w where "v = round_dec 1 w" by blast
    then show ?thesis using round_dec_grid [of 1 w] by simp
  qed
  from A B C show ?thesis by blast
qed

text \<open>
  Witness for C10: a matched transaction, whose master rate 25.37 is returned as 25.4,
  and an unmatched one, whose fallback rate 26.82 is returned as 26.8.
\<close>

theorem tasa_ea_one_decimal_witness:
  "tasas_originales [txn_cuotas, txn_totalero] [maestro_cuotas (Some 25.37)] 3 2023
     = Some (Inr [fila_df_to txn_cuotas (Some 25.4), fila_df_to txn_totalero (Some 26.8)])
   \<and> in_window txn_cuotas (maestro_cuotas (Some 25.37)) 3 2023
   \<and> case_tasa_ea txn_cuotas (maestro_cuotas (Some 25.37)) = Some 25.37
   \<and> round_dec 1 25.37 = 25.4
   \<and> round_dec 1 (interes_ea (tasa_interes txn_totalero)) = 26.8
   \<and> TASA_EA (fila_df_to txn_cuotas (Some 25.4)) = Some 25.4
   \<and> (\<exists>k::int. (25.4::real) = of_int k / 10)
   \<and> (\<exists>v. fila_df_to txn_totalero (Some v)
               \<in> set [fila_df_to txn_cuotas (Some 25.4), fila_df_to txn_totalero (Some 26.8)])"
proof -
  have a: "tasas_originales [txn_cuotas, txn_totalero] [maestro_cuotas (Some 25.37)] 3 2023
     = Some (Inr [fila_df_to txn_cuotas (Some 25.4), fila_df_to txn_totalero (Some 26.8)])"
    by code_simp
  have b: "in_window txn_cuotas (maestro_cuotas (Some 25.37)) 3 2023" by code_simp
  have c: "case_tasa_ea txn_cuotas (maestro_cuotas (Some 25.37)) = Some 25.37" by code_simp
  have d: "round_dec 1 25.37 = 25.4" by code_simp
  have f: "round_dec 1 (interes_ea (tasa_interes txn_totalero)) = 26.8" by code_simp
  have g: "TASA_EA (fila_df_to txn_cuotas (Some 25.4)) = Some 25.4"
    by (rule fila_df_to_sel)
  have h: "fila_df_to txn_cuotas (Some 25.4)
             \<in> set [fila_df_to txn_cuotas (Some 25.4), fila_df_to txn_totalero (Some 26.8)]"
    by simp
  have i: "txn_totalero \<in> set [txn_cuotas, txn_totalero]" by simp
  from tasa_ea_one_decimal [OF a] h g have k: "\<exists>k::int. (25.4::real) = of_int k / 10"
    by blast
  from tasa_ea_one_decimal [OF a] i have l: "\<exists>v. fila_df_to txn_totalero (Some v)
               \<in> set [fila_df_to txn_cuotas (Some 25.4), fila_df_to txn_totalero (Some 26.8)]"
    by blast
  from a b c d f g k l show ?thesis by blast
qed

lemma float_text_examples:
  "float_text ''1''" "float_text ''2''" "float_text ''1.0''"
  "\<not> float_text ''C''" "\<not> float_text ''V''" "\<not> float_text []"
  by code_simp+

text \<open>
  A matched transaction of type \<open>'C'\<close> stops the reconciliation at the cast of line
  443; unmatched, it goes through, since only the joined rows are cast.
\<close>

lemma tipo_transaccion_cast:
  "tasas_originales [txn_cuotas\<lparr>tipo_transaccion := ''C''\<rparr>] [maestro_cuotas (Some 25)] 3 2023
     = Some (Inl ValueError)"
  "tasas_originales [txn_cuotas\<lparr>tipo_transaccion := ''C''\<rparr>] [] 3 2023
     = Some (Inr [fila_df_to (txn_cuotas\<lparr>tipo_transaccion := ''C''\<rparr>) (Some 26.8)])"
  by code_simp+

lemma sql_1_rows:
  assumes "r \<in> set (sql_1 p1s p2s am)" and "\<forall>p2\<in>set p2s. p2_TASA_EA p2 \<noteq> None"
  shows "FECHA r \<noteq> None \<and> TASA_EA r \<noteq> None"
  using assms unfolding sql_1_def fila_def by auto

lemma merge_left_rows:
  assumes m: "merge_left left right = Inr X"
    and r: "\<forall>r\<in>set right. FECHA r \<noteq> None \<and> TASA_EA r \<noteq> None"
  shows "length X = length left \<and> (\<forall>x\<in>set X. (TASA_EA x = None) = (FECHA x = None))"
proof -
  have X: "X = map (\<lambda>t. case find (\<lambda>r. llave r = llave t) right of
                             None \<Rightarrow> fila t None None
                           | Some r \<Rightarrow> fila t (TASA_EA r) (FECHA r)) left"
    using m unfolding merge_left_def by (simp split: if_splits)
  have "(TASA_EA x = None) = (FECHA x = None)" if "x \<in> set X" for x
  proof -
    from that X obtain t where
      x: "x = (case find (\<lambda>r. llave r = llave t) right of
                 None \<Rightarrow> fila t None None
               | Some r \<Rightarrow> fila t (TASA_EA r) (FECHA r))" by auto
    show ?thesis
    proof (cases "find (\<lambda>r. llave r = llave t) right")
      case None
      then show ?thesis using x by (simp add: fila_def)
    next
      case (Some r')
      then have "r' \<in> set right" by (auto simp: find_Some_iff)
      with r have "FECHA r' \<noteq> None \<and> TASA_EA r' \<noteq> None" by blast
      then show ?thesis using x Some by (auto simp: fila_def)
    qed
  qed
  then show ?thesis using X by simp
qed

lemma row_count_preserved:
  assumes n: "1 \<le> num_mes" and d: "distinct (map llave mes_base)"
    and nn: "\<forall>p2\<in>set maestro_facturacion. p2_TASA_EA p2 \<noteq> None"
    and ft: "\<forall>t\<in>set mes_base. float_text (tipo_transaccion t)"
  shows "\<exists>out. tasas_originales mes_base maestro_facturacion num_mes num_anio = Some (Inr out)
           \<and> length out = length mes_base \<and> (\<forall>r\<in>set out. TASA_EA r \<noteq> None)"
proof -
  from scan_while_terminates [OF n, of num_anio] obtain meses where
    scan: "scan_while num_mes (num_anio - 10) (num_anio, num_mes) [] = Some meses"
    and ne: "meses \<noteq> []" by blast
  define R where "R = drop_duplicates (concat (map (sql_1 mes_base maestro_facturacion) meses))"
  have Rrows: "\<forall>r\<in>set R. FECHA r \<noteq> None \<and> TASA_EA r \<noteq> None"
  proof
    fix r assume "r \<in> set R"
    then have "r \<in> set (concat (map (sql_1 mes_base maestro_facturacion) meses))"
      unfolding R_def using set_drop_duplicates by blast
    then obtain am where "r \<in> set (sql_1 mes_base maestro_facturacion am)" by auto
    then show "FECHA r \<noteq> None \<and> TASA_EA r \<noteq> None" using nn by (rule sql_1_rows)
  qed
  have "distinct (map llave R)" unfolding R_def by (rule distinct_drop_duplicates)
  then obtain X where m: "merge_left mes_base R = Inr X"
    unfolding merge_left_def using d by simp
  from merge_left_rows [OF m Rrows] have
    len: "length X = length mes_base"
    and iff: "\<forall>x\<in>set X. (TASA_EA x = None) = (FECHA x = None)" by simp_all
  define complete where "complete = filter (\<lambda>r. FECHA r \<noteq> None) X"
  define missing where "missing = filter (\<lambda>r. TASA_EA r = None) X"
  define out where "out = map (\<lambda>r. r\<lparr>TASA_EA := map_option (round_dec 1) (TASA_EA r)\<rparr>)
     (map columnas (complete @
        map (\<lambda>r. r\<lparr>TASA_EA := Some (interes_ea (tasa_interes r))\<rparr>) missing))"
  have fl: "list_all (\<lambda>r. float_text (tipo_transaccion r))
              (concat (map (sql_1 mes_base maestro_facturacion) meses))"
    using ft unfolding list_all_iff sql_1_def fila_def by auto
  have res: "tasas_originales mes_base maestro_facturacion num_mes num_anio = Some (Inr out)"
    unfolding tasas_originales_def Let_def out_def complete_def missing_def
    by (simp only: scan option.case ne if_False fl not_True_eq_False
          R_def [symmetric] m sum.case)
  have "missing = filter (\<lambda>r. \<not> FECHA r \<noteq> None) X"
    unfolding missing_def using iff by (intro filter_cong) auto
  then have "length complete + length missing = length X"
    unfolding complete_def by (simp only: sum_length_filter_compl)
  then have l: "length out = length mes_base" unfolding out_def using len by simp
  have c: "\<forall>r\<in>set complete. TASA_EA r \<noteq> None"
    unfolding complete_def using iff by auto
  have "\<forall>r\<in>set out. TASA_EA r \<noteq> None"
    unfolding out_def using c by (auto simp: columnas_def)
  with res l show ?thesis by blast
qed

lemma row_count_preserved_example:
  "(1::int) \<le> 3 \<and> distinct (map llave [txn_cuotas, txn_totalero])
   \<and> tasas_originales [txn_cuotas, txn_totalero] [maestro_cuotas (Some 25), maestro_totalero] 3 2023
     = Some (Inr [fila_df_to txn_cuotas (Some 25), fila_df_to txn_totalero (Some 0)])"
  by code_simp

subsection \<open>Balances by rate band\<close>

lemma cut_bin_ranges: "\<exists>i<13. cut_bin ranges x = Some i"
  unfolding ranges_def by simp

lemma distinct_grupo_tasas: "distinct grupo_tasas"
  unfolding grupo_tasas_def by simp

lemma length_grupo_tasas: "length grupo_tasas = 13"
  unfolding grupo_tasas_def by simp

lemma cut_in_grupo_tasas: "\<exists>l\<in>set grupo_tasas. pd_cut x = Some l"
proof -
  from cut_bin_ranges [of x] obtain i where i: "i < 13" "cut_bin ranges x = Some i" by blast
  then have "grupo_tasas ! i \<in> set grupo_tasas" using length_grupo_tasas by simp
  then show ?thesis unfolding pd_cut_def using i by auto
qed


lemma sum_list_indicator:
  fixes c :: real
  assumes "distinct ls"
  shows "sum_list (map (\<lambda>l. if a = l then c else 0) ls) = (if a \<in> set ls then c else 0)"
  using assms by (induction ls) auto

lemma sum_list_by_label:
  fixes g :: "'a \<Rightarrow> real"
  assumes d: "distinct ls" and m: "\<forall>r\<in>set rows. f r \<in> set ls"
  shows "sum_list (map (\<lambda>l. sum_list (map g (filter (\<lambda>r. f r = l) rows))) ls)
           = sum_list (map g rows)"
  using m
proof (induction rows)
  case Nil
  show ?case by simp
next
  case (Cons r rows)
  have "sum_list (map (\<lambda>l. sum_list (map g (filter (\<lambda>r. f r = l) (r # rows)))) ls)
      = sum_list (map (\<lambda>l. (if f r = l then g r else 0)
                           + sum_list (map g (filter (\<lambda>r. f r = l) rows))) ls)"
    by (intro arg_cong [where f = sum_list] map_cong) auto
  also have "\<dots> = sum_list (map (\<lambda>l. if f r = l then g r else 0) ls)
                   + sum_list (map (\<lambda>l. sum_list (map g (filter (\<lambda>r. f r = l) rows))) ls)"
    by (simp add: sum_list_addf)
  also have "sum_list (map (\<lambda>l. if f r = l then g r else 0) ls) = g r"
    using sum_list_indicator [OF d, of "f r" "g r"] Cons.prems by simp
  also have "sum_list (map (\<lambda>l. sum_list (map g (filter (\<lambda>r. f r = l) rows))) ls)
               = sum_list (map g rows)"
    using Cons by simp
  finally show ?case by simp
qed





lemma ejemplo_totals:
  "groups_total ejemplo_sinRango ''Tasa original'' = 1500"
  "groups_total ejemplo_sinRango ''Tasa actual'' = 1500"
  by code_simp+

lemma saldo_cr_to_conserves:
  "sum_list (map snd (saldo_cr_to df_mes_input))
     = sum_list (map snd (sort_values_desc (groupby_sum
         (map (\<lambda>r. (tasa_ea_original r, saldo_actual r))
            (saldo_to_mes_df_to df_mes_input)))))"
proof -
  let ?groups = "sort_values_desc (groupby_sum
         (map (\<lambda>r. (tasa_ea_original r, saldo_actual r))
            (saldo_to_mes_df_to df_mes_input)))"
  let ?f = "\<lambda>r::real \<times> real. pd_cut (round_dec 2 (fst r))"
  have d: "distinct (map Some grupo_tasas)"
    using distinct_grupo_tasas by (simp add: distinct_map)
  have m: "\<forall>r\<in>set ?groups. ?f r \<in> set (map Some grupo_tasas)"
    using cut_in_grupo_tasas by auto
  have "sum_list (map snd (saldo_cr_to df_mes_input))
      = sum_list (map (\<lambda>l. sum_list (map snd (filter (\<lambda>r. ?f r = l) ?groups)))
          (map Some grupo_tasas))"
    unfolding saldo_cr_to_def by (simp add: comp_def case_prod_unfold)
  also have "\<dots> = sum_list (map snd ?groups)"
    using d m by (rule sum_list_by_label)
  finally show ?thesis .
qed

subsection \<open>The conversions and where they are used\<close>

lemma round_dec_idem: "round_dec n (round_dec n x) = round_dec n x"
proof -
  obtain k :: int where k: "round_dec n x = of_int k / 10 ^ n"
    using round_dec_grid by blast
  have "\<bar>round_dec n x - of_int k / 10 ^ n\<bar> < 1 / (2 * 10 ^ n)" using k by simp
  then have "round_dec n (round_dec n x) = of_int k / 10 ^ n" by (rule round_dec_near)
  then show ?thesis using k by simp
qed

lemma df_mes_sites:
  "afectacion_100pbs_df_mes df = dataset_of df"
  "afectacion_historica_estimada_df_mes df = dataset_of df"
  "estimacion_sensibilidad_df_mes df = dataset_of df"
  "saldo_usura_df_mes df = dataset_of df"
  "saldo_to_mes_df_to df = dataset_of df"
  unfolding afectacion_100pbs_df_mes_def afectacion_historica_estimada_df_mes_def
    estimacion_sensibilidad_df_mes_def saldo_usura_df_mes_def saldo_to_mes_df_to_def
    dataset_of_def interes_ea_def
  by simp_all

lemma column_sites:
  "segmentacion_saldo_interes_ea df = map (\<lambda>r. interes_ea (tasa_interes r)) df"
  "tasas_usura_implicita_facial_interes_ea df = map (\<lambda>r. interes_ea (tasa_interes r)) df"
  unfolding segmentacion_saldo_interes_ea_def tasas_usura_implicita_facial_interes_ea_def
    interes_ea_def
  by (simp_all add: round_dec_idem)

lemma interes_ea_actual_dataset_of:
  "map interes_ea_actual (dataset_of df) = map (\<lambda>r. interes_ea (tasa_interes r)) df"
  unfolding dataset_of_def by simp

text \<open>
  C5. For a nominal rate \<open>r > -100\<close> the effective-annual conversion returns
  \<open>((1 + r/100)^12 - 1) * 100\<close> rounded to two decimals: a multiple of 0.01 at most
  0.005 away from it. The monthly-value conversion returns, without error,
  \<open>((1 + r/100)^(30/360) - 1) * 100\<close> rounded in the same way. Every step that derives
  the current effective-annual rate (\<open>afectacion_100pbs\<close>,
  \<open>afectacion_historica_estimada\<close>, \<open>estimacion_sensibilidad\<close>,
  \<open>saldo_usura\<close>, \<open>saldo_to_mes\<close>, \<open>segmentacion_saldo\<close>,
  \<open>tasas_usura_implicita_facial\<close>) computes exactly this conversion of the nominal
  rate.
\<close>

theorem conversions_rounded:
  assumes "- 100 < r"
  shows "(\<exists>k::int. interes_ea r = of_int k / 100)
    \<and> \<bar>interes_ea r - (((1 + r / 100) ^ 12) - 1) * 100\<bar> \<le> 1 / 200
    \<and> (\<exists>v. tasa_original_mv r = Inr v \<and> (\<exists>k::int. v = of_int k / 100)
           \<and> \<bar>v - (((1 + r / 100) powr (30 / 360)) - 1) * 100\<bar> \<le> 1 / 200)
    \<and> map interes_ea_actual (afectacion_100pbs_df_mes df)
         = map (\<lambda>x. interes_ea (tasa_interes x)) df
    \<and> map interes_ea_actual (afectacion_historica_estimada_df_mes df)
         = map (\<lambda>x. interes_ea (tasa_interes x)) df
    \<and> map interes_ea_actual (estimacion_sensibilidad_df_mes df)
         = map (\<lambda>x. interes_ea (tasa_interes x)) df
    \<and> map interes_ea_actual (saldo_usura_df_mes df)
         = map (\<lambda>x. interes_ea (tasa_interes x)) df
    \<and> map interes_ea_actual (saldo_to_mes_df_to df)
         = map (\<lambda>x. interes_ea (tasa_interes x)) df
    \<and> segmentacion_saldo_interes_ea df = map (\<lambda>x. interes_ea (tasa_interes x)) df
    \<and> tasas_usura_implicita_facial_interes_ea df = map (\<lambda>x. interes_ea (tasa_interes x)) df"
proof -
  have g1: "\<exists>k::int. interes_ea r = of_int k / 100"
    unfolding interes_ea_def using round_dec_grid [of 2] by simp
  have "\<bar>interes_ea r - ((r / 100 + 1) ^ 12 - 1) * 100\<bar> \<le> 1 / (2 * 10 ^ 2)"
    unfolding interes_ea_def by (rule round_dec_error)
  then have e1: "\<bar>interes_ea r - (((1 + r / 100) ^ 12) - 1) * 100\<bar> \<le> 1 / 200"
    by (simp add: add.commute)
  define v where "v = round_dec 2 (((1 + r / 100) powr (30 / 360) - 1) * 100)"
  have m: "tasa_original_mv r = Inr v"
    unfolding tasa_original_mv_def Let_def v_def using assms by simp
  have g2: "\<exists>k::int. v = of_int k / 100"
    unfolding v_def using round_dec_grid [of 2] by simp
  have "\<bar>v - ((1 + r / 100) powr (30 / 360) - 1) * 100\<bar> \<le> 1 / (2 * 10 ^ 2)"
    unfolding v_def by (rule round_dec_error)
  then have e2: "\<bar>v - (((1 + r / 100) powr (30 / 360)) - 1) * 100\<bar> \<le> 1 / 200" by simp
  from m g2 e2 have mv: "\<exists>v. tasa_original_mv r = Inr v \<and> (\<exists>k::int. v = of_int k / 100)
           \<and> \<bar>v - (((1 + r / 100) powr (30 / 360)) - 1) * 100\<bar> \<le> 1 / 200" by blast
  show ?thesis
    using g1 e1 mv
    by (simp only: df_mes_sites interes_ea_actual_dataset_of column_sites simp_thms)
qed

text \<open>Witness for C5: the nominal rate 2 percent and the frame of the worked example.\<close>

theorem conversions_rounded_witness:
  "(- 100 :: real) < 2
   \<and> (\<exists>k::int. interes_ea 2 = of_int k / 100)
   \<and> \<bar>interes_ea 2 - (((1 + 2 / 100) ^ 12) - 1) * 100\<bar> \<le> 1 / 200
   \<and> (\<exists>v. tasa_original_mv 2 = Inr v \<and> (\<exists>k::int. v = of_int k / 100)
          \<and> \<bar>v - (((1 + 2 / 100) powr (30 / 360)) - 1) * 100\<bar> \<le> 1 / 200)
   \<and> map interes_ea_actual (saldo_to_mes_df_to ejemplo_df_to)
        = map (\<lambda>x. interes_ea (tasa_interes x)) ejemplo_df_to"
proof -
  have h: "(- 100 :: real) < 2" by simp
  show ?thesis using h conversions_rounded [OF h, of ejemplo_df_to] by blast
qed

lemma interes_ea_2: "interes_ea 2 = 26.82"
  by code_simp

end
